theory Spec2Isabelle
  imports Main
begin

section \<open>Values exchanged with the REST client and the plugin framework\<close>

text \<open>
  The REST client answers every call with a triple: a result (an interface value that is
  nil or holds a pointer to a typed secret), a detailed response (a pointer, possibly
  nil) and an error (nil on success).
\<close>

record DetailedResponse =
  StatusCode :: int

datatype DateTime = DateTime int

text \<open>
  Errors are kept symbolic. A \<open>fmt.Errorf\<close> is its format string and its operands, so
  that a message is compared by its static text and by the values it wraps.
  \<open>ClientError msg st\<close> is an error raised by the session or the REST client;
  \<open>st\<close> is the status code when the error implements \<open>bmxerror.RequestFailure\<close>.
\<close>

datatype error =
    ClientError string "int option"
  | Errorf string "fmtarg list"
  | ErrorsNew string
  | TimeoutError string "string list"
  | UnexpectedStateError string "string list"
and fmtarg =
    AStr string
  | AErr "error option"
  | AResp "DetailedResponse option"

text \<open>The line feed written \<open>\n\<close> in the source's format strings.\<close>

definition LF :: string where
  "LF = [CHR 0x0A]"

record ArbitrarySecret =
  sec_ID :: "string option"
  sec_CreatedBy :: "string option"
  sec_CreatedAt :: "DateTime option"
  sec_Crn :: "string option"
  sec_Downloaded :: "bool option"
  sec_LocksTotal :: "int option"
  sec_Name :: "string option"
  sec_SecretGroupID :: "string option"
  sec_SecretType :: "string option"
  sec_State :: "int option"
  sec_StateDescription :: "string option"
  sec_UpdatedAt :: "DateTime option"
  sec_VersionsTotal :: "int option"
  sec_CustomMetadata :: "(string \<times> string) list option"
  sec_Description :: "string option"
  sec_Labels :: "string list option"
  sec_ExpirationDate :: "DateTime option"
  sec_Payload :: "string option"

text \<open>
  \<open>SecretIntf\<close>: the nil interface, a (non-nil) pointer to an arbitrary secret, or a
  pointer to a secret of another type. The single-value type assertion
  \<open>x.(*secretsmanagerv2.ArbitrarySecret)\<close> panics on the first and the last.
\<close>

datatype SecretIntf =
    NilIntf
  | ArbitrarySecretPtr ArbitrarySecret
  | OtherSecretPtr

type_synonym sdk_result = "SecretIntf \<times> DetailedResponse option \<times> error option"

record ArbitrarySecretPrototype =
  proto_SecretType :: "string option"
  proto_Name :: "string option"
  proto_Payload :: "string option"
  proto_CustomMetadata :: "(string \<times> string) list option"
  proto_Description :: "string option"
  proto_ExpirationDate :: "DateTime option"
  proto_Labels :: "string list option"
  proto_SecretGroupID :: "string option"
  proto_VersionCustomMetadata :: "(string \<times> string) list option"

record SecretMetadataPatch =
  patch_Name :: "string option"
  patch_Description :: "string option"
  patch_Labels :: "string list option"
  patch_CustomMetadata :: "(string \<times> string) list option"

text \<open>
  The resource data \<open>d\<close> of the arbitrary-secret resource. Every attribute has the Go
  type its schema entry gives it; \<open>d.Get\<close> answers the zero value for an attribute
  that is not set, so an attribute that is not set is its zero value here (the empty
  string or list, \<open>0\<close>, \<open>False\<close>). Maps are association lists.
  \<open>HasChange\<close> and \<open>TimeoutCreate\<close> are \<open>d.HasChange\<close> and
  \<open>d.Timeout(schema.TimeoutCreate)\<close> (seconds).
\<close>

record ResourceData =
  Id_d :: string
  HasChange :: "string \<Rightarrow> bool"
  TimeoutCreate :: nat
  instance_id :: string
  region :: string
  name :: string
  secret_type :: string
  payload :: string
  custom_metadata :: "(string \<times> string) list"
  description :: string
  expiration_date :: string
  labels :: "string list"
  secret_group_id :: string
  version_custom_metadata :: "(string \<times> string) list"
  created_by :: string
  created_at :: string
  crn :: string
  downloaded :: bool
  secret_id :: string
  locks_total :: int
  state :: int
  state_description :: string
  updated_at :: string
  versions_total :: int

text \<open>
  The REST calls an operation issues, in order, each with the response and the error it
  came back with.
\<close>

datatype call =
    CreateSecretWithContextCall ArbitrarySecretPrototype
  | GetSecretCall string
  | GetSecretWithContextCall string
  | UpdateSecretMetadataWithContextCall string SecretMetadataPatch
  | DeleteSecretWithContextCall string

type_synonym trace = "(call \<times> DetailedResponse option \<times> error option) list"

text \<open>
  Everything outside the functions of the resource file: the session, the REST client's
  answers (the \<open>k\<close>-th \<open>GetSecret\<close> of a creation poll may differ from the
  \<open>(k+1)\<close>-th), \<open>time.Parse\<close> with the RFC 3339 layout (\<open>Inl\<close> carries the text of
  the parse error), the helpers \<open>getRegion\<close>, \<open>flex.DateTimeToString\<close> and
  \<open>flex.IntValue\<close> of other files, the error of \<open>d.Set\<close> for a key, and the number
  of refreshes the framework completes within a timeout given in seconds.
\<close>

record Env =
  SecretsManagerV2 :: "error option"
  getRegion :: "ResourceData \<Rightarrow> string"
  time_Parse :: "string \<Rightarrow> string + DateTime"
  DateTimeToString :: "DateTime option \<Rightarrow> string"
  IntValue :: "int option \<Rightarrow> int"
  Set_error :: "string \<Rightarrow> error option"
  CreateSecretWithContext :: "ArbitrarySecretPrototype \<Rightarrow> sdk_result"
  GetSecret :: "nat \<Rightarrow> string \<Rightarrow> sdk_result"
  GetSecretWithContext :: "string \<Rightarrow> sdk_result"
  UpdateSecretMetadataWithContext :: "string \<Rightarrow> SecretMetadataPatch \<Rightarrow> sdk_result"
  DeleteSecretWithContext :: "string \<Rightarrow> DetailedResponse option \<times> error option"
  refreshes_within :: "nat \<Rightarrow> nat"

datatype outcome = Panicked | Returned "error list"

section \<open>The creation poll\<close>

text \<open>\<open>strings.Split(s, "/")\<close>: one more piece than there are separators.\<close>

fun Split :: "string \<Rightarrow> char \<Rightarrow> string list" where
  "Split [] sep = [[]]"
| "Split (c # cs) sep =
     (if c = sep then [] # Split cs sep
      else (case Split cs sep of [] \<Rightarrow> [[c]] | x # xs \<Rightarrow> (c # x) # xs))"

definition failStates :: "string \<rightharpoonup> bool" where
  "failStates = [''destroyed'' \<mapsto> True]"

text \<open>Indexing a Go \<open>map[string]bool\<close>: a missing key reads as \<open>false\<close>.\<close>

definition index_bool :: "(string \<rightharpoonup> bool) \<Rightarrow> string \<Rightarrow> bool" where
  "index_bool m k = (case m k of None \<Rightarrow> False | Some b \<Rightarrow> b)"

definition RequestFailure_StatusCode :: "error \<Rightarrow> int option" where
  "RequestFailure_StatusCode e = (case e of ClientError msg st \<Rightarrow> st | _ \<Rightarrow> None)"

datatype refresh_result =
    RefreshPanic
  | RefreshRet "ArbitrarySecret option" string "error option"

text \<open>
  The \<open>Refresh\<close> closure of \<open>waitForIbmSmArbitrarySecretCreate\<close>, applied to the answer
  of \<open>GetSecret\<close>. The type assertion is the first statement, before the error check.
\<close>

definition Refresh :: "sdk_result \<Rightarrow> refresh_result" where
  "Refresh r =
     (case r of (stateObjIntf, response, err) \<Rightarrow>
        (case stateObjIntf of
           NilIntf \<Rightarrow> RefreshPanic
         | OtherSecretPtr \<Rightarrow> RefreshPanic
         | ArbitrarySecretPtr stateObj \<Rightarrow>
             (case err of
                Some e \<Rightarrow>
                  (if RequestFailure_StatusCode e = Some 404
                   then RefreshRet None []
                          (Some (Errorf (''The instance %s does not exist anymore: %s'' @ LF @ ''%s'')
                                   [AStr ''getSecretOptions'', AErr err, AResp response]))
                   else RefreshRet None [] (Some e))
              | None \<Rightarrow>
                  (case sec_StateDescription stateObj of
                     None \<Rightarrow> RefreshPanic
                   | Some sd \<Rightarrow>
                       (if index_bool failStates sd
                        then RefreshRet (Some stateObj) sd
                               (Some (Errorf (''The instance %s failed: %s'' @ LF @ ''%s'')
                                        [AStr ''getSecretOptions'', AErr err, AResp response]))
                        else RefreshRet (Some stateObj) sd None)))))"

text \<open>
  The configuration \<open>waitForIbmSmArbitrarySecretCreate\<close> hands to the framework
  (durations in seconds).
\<close>

record StateChangeConf =
  Pending :: "string list"
  Target :: "string list"
  Timeout :: nat
  Delay :: nat
  MinTimeout :: nat

definition stateConf :: "ResourceData \<Rightarrow> StateChangeConf" where
  "stateConf d =
     \<lparr>Pending = [''pre_activation''], Target = [''active''],
      Timeout = TimeoutCreate d, Delay = 0, MinTimeout = 5\<rparr>"

datatype wait_result =
    WaitPanic
  | WaitRet "ArbitrarySecret option" "error option"

text \<open>
  Modelled from the spec: \<open>StateChangeConf.WaitForState\<close> belongs to the plugin
  framework and is not among the sources. The spec describes it as a blocking poll
  with a caller-supplied timeout that runs until the status field goes from a
  pending value to a target value, or until a failure triggers an error. Real time is
  abstracted to the number of refreshes that fit within the timeout:
  \<open>poll conf refresh n k lastState\<close> has \<open>n\<close> refreshes left, has made \<open>k\<close>, and
  saw the state \<open>lastState\<close> in the previous one. A refresh that returns an error ends the
  wait with that error; a target state ends it with the refreshed object; a pending
  state goes on polling; any other state ends it with an unexpected-state error; and
  when no refresh is left the wait ends with a timeout error. The second component
  counts the refreshes made.
\<close>

fun poll :: "StateChangeConf \<Rightarrow> (nat \<Rightarrow> refresh_result) \<Rightarrow> nat \<Rightarrow> nat \<Rightarrow> string
    \<Rightarrow> wait_result \<times> nat" where
  "poll conf refresh 0 k lastState =
     (WaitRet None (Some (TimeoutError lastState (Target conf))), k)"
| "poll conf refresh (Suc n) k lastState =
     (case refresh k of
        RefreshPanic \<Rightarrow> (WaitPanic, Suc k)
      | RefreshRet res currentState err \<Rightarrow>
          (case err of
             Some e \<Rightarrow> (WaitRet res (Some e), Suc k)
           | None \<Rightarrow>
               (if currentState \<in> set (Target conf) then (WaitRet res None, Suc k)
                else if currentState \<in> set (Pending conf)
                then poll conf refresh n (Suc k) currentState
                else (WaitRet res
                        (Some (UnexpectedStateError currentState (Target conf))), Suc k))))"

definition WaitForState :: "StateChangeConf \<Rightarrow> (nat \<Rightarrow> refresh_result) \<Rightarrow> nat
    \<Rightarrow> wait_result \<times> nat" where
  "WaitForState conf refresh n = poll conf refresh n 0 []"

definition waitForIbmSmArbitrarySecretCreate :: "Env \<Rightarrow> ResourceData \<Rightarrow> wait_result \<times> trace" where
  "waitForIbmSmArbitrarySecretCreate env d =
     (let id = Split (Id_d d) (CHR ''/'') in
      if length id < 3 then (WaitPanic, [])
      else
        (let secretId = id ! 2 in
         case WaitForState (stateConf d) (\<lambda>k. Refresh (GetSecret env k secretId))
                (refreshes_within env (Timeout (stateConf d))) of
           (w, n) \<Rightarrow>
             (w, map (\<lambda>k. (GetSecretCall secretId, snd (GetSecret env k secretId)))
                   [0..<n])))"

section \<open>Building the create request\<close>

text \<open>
  \<open>d.GetOk\<close> reports an attribute as set when it holds a value other than the zero
  value of its type; strings, lists and maps all have the empty list as zero value here.
\<close>

definition GetOk :: "'a list \<Rightarrow> bool" where
  "GetOk v = (v \<noteq> [])"

text \<open>\<open>fmt.Sprint\<close> on a label, which the schema makes a string.\<close>

definition Sprint :: "string \<Rightarrow> string" where
  "Sprint v = v"

definition DQ :: string where
  "DQ = [CHR 0x22]"

definition prototype_head :: "ResourceData \<Rightarrow> ArbitrarySecretPrototype" where
  "prototype_head d =
     \<lparr>proto_SecretType = Some ''arbitrary'',
      proto_Name = (if GetOk (name d) then Some (name d) else None),
      proto_Payload = (if GetOk (payload d) then Some (payload d) else None),
      proto_CustomMetadata =
        (if GetOk (custom_metadata d) then Some (custom_metadata d) else None),
      proto_Description = (if GetOk (description d) then Some (description d) else None),
      proto_ExpirationDate = None,
      proto_Labels = None,
      proto_SecretGroupID = None,
      proto_VersionCustomMetadata = None\<rparr>"

definition prototype_tail :: "ResourceData \<Rightarrow> ArbitrarySecretPrototype \<Rightarrow> ArbitrarySecretPrototype" where
  "prototype_tail d model =
     model\<lparr>proto_Labels := (if GetOk (labels d) then Some (map Sprint (labels d)) else None),
           proto_SecretGroupID :=
             (if GetOk (secret_group_id d) then Some (secret_group_id d) else None),
           proto_VersionCustomMetadata :=
             (if GetOk (version_custom_metadata d) then Some (version_custom_metadata d)
              else None)\<rparr>"

text \<open>
  \<open>resourceIbmSmArbitrarySecretMapToArbitrarySecretPrototype\<close>: the fields before
  \<open>expiration_date\<close>, then the date, whose parse error is the function's only early
  return, then the fields after it.
\<close>

definition resourceIbmSmArbitrarySecretMapToArbitrarySecretPrototype ::
    "(string \<Rightarrow> string + DateTime) \<Rightarrow> ResourceData \<Rightarrow> error + ArbitrarySecretPrototype" where
  "resourceIbmSmArbitrarySecretMapToArbitrarySecretPrototype parse d =
     (let model = prototype_head d in
      if GetOk (expiration_date d) then
        (case parse (expiration_date d) of
           Inl msg \<Rightarrow>
             Inl (ErrorsNew (''Failed to get '' @ DQ @ ''expiration_date'' @ DQ @ ''. Error: '' @ msg))
         | Inr parseToTime \<Rightarrow>
             Inr (prototype_tail d (model\<lparr>proto_ExpirationDate := Some parseToTime\<rparr>)))
      else Inr (prototype_tail d model))"

section \<open>The lifecycle functions of the arbitrary-secret resource\<close>

type_synonym op_result = "outcome \<times> ResourceData \<times> trace"

text \<open>
  One \<open>d.Set\<close> of the read function: \<open>Checked\<close> when the source returns a diagnostic
  on its error, \<open>Unchecked\<close> when the source drops the error. A \<open>d.Set\<close> that fails
  writes nothing.
\<close>

datatype set_step =
    Checked string "ResourceData \<Rightarrow> ResourceData"
  | Unchecked string "ResourceData \<Rightarrow> ResourceData"

fun run_sets :: "Env \<Rightarrow> set_step list \<Rightarrow> ResourceData \<Rightarrow> error option \<times> ResourceData" where
  "run_sets env [] d = (None, d)"
| "run_sets env (Checked k upd # ss) d =
     (case Set_error env k of
        Some err \<Rightarrow> (Some (Errorf (''Error setting '' @ k @ '': %s'') [AErr (Some err)]), d)
      | None \<Rightarrow> run_sets env ss (upd d))"
| "run_sets env (Unchecked k upd # ss) d =
     (case Set_error env k of
        Some err \<Rightarrow> run_sets env ss d
      | None \<Rightarrow> run_sets env ss (upd d))"

text \<open>Writing a nil pointer with \<open>d.Set\<close> leaves the zero value.\<close>

definition str_of :: "string option \<Rightarrow> string" where
  "str_of p = (case p of None \<Rightarrow> [] | Some s \<Rightarrow> s)"

definition bool_of :: "bool option \<Rightarrow> bool" where
  "bool_of p = (case p of None \<Rightarrow> False | Some b \<Rightarrow> b)"

definition read_sets :: "Env \<Rightarrow> string \<Rightarrow> string \<Rightarrow> string \<Rightarrow> ArbitrarySecret \<Rightarrow> set_step list" where
  "read_sets env region' instanceId secretId secret =
     [Checked ''secret_id'' (\<lambda>d. d\<lparr>secret_id := secretId\<rparr>),
      Checked ''instance_id'' (\<lambda>d. d\<lparr>instance_id := instanceId\<rparr>),
      Checked ''region'' (\<lambda>d. d\<lparr>region := region'\<rparr>),
      Checked ''created_by'' (\<lambda>d. d\<lparr>created_by := str_of (sec_CreatedBy secret)\<rparr>),
      Checked ''created_at''
        (\<lambda>d. d\<lparr>created_at := DateTimeToString env (sec_CreatedAt secret)\<rparr>),
      Checked ''crn'' (\<lambda>d. d\<lparr>crn := str_of (sec_Crn secret)\<rparr>),
      Checked ''downloaded'' (\<lambda>d. d\<lparr>downloaded := bool_of (sec_Downloaded secret)\<rparr>),
      Checked ''locks_total'' (\<lambda>d. d\<lparr>locks_total := IntValue env (sec_LocksTotal secret)\<rparr>),
      Checked ''name'' (\<lambda>d. d\<lparr>name := str_of (sec_Name secret)\<rparr>),
      Checked ''secret_group_id''
        (\<lambda>d. d\<lparr>secret_group_id := str_of (sec_SecretGroupID secret)\<rparr>),
      Checked ''secret_type'' (\<lambda>d. d\<lparr>secret_type := str_of (sec_SecretType secret)\<rparr>),
      Checked ''state'' (\<lambda>d. d\<lparr>state := IntValue env (sec_State secret)\<rparr>),
      Checked ''state_description''
        (\<lambda>d. d\<lparr>state_description := str_of (sec_StateDescription secret)\<rparr>),
      Checked ''updated_at''
        (\<lambda>d. d\<lparr>updated_at := DateTimeToString env (sec_UpdatedAt secret)\<rparr>),
      Checked ''versions_total''
        (\<lambda>d. d\<lparr>versions_total := IntValue env (sec_VersionsTotal secret)\<rparr>)]
     @ (case sec_CustomMetadata secret of
          None \<Rightarrow> []
        | Some m \<Rightarrow> [Unchecked ''custom_metadata'' (\<lambda>d. d\<lparr>custom_metadata := m\<rparr>)])
     @ [Checked ''description'' (\<lambda>d. d\<lparr>description := str_of (sec_Description secret)\<rparr>)]
     @ (case sec_Labels secret of
          None \<Rightarrow> []
        | Some l \<Rightarrow> [Checked ''labels'' (\<lambda>d. d\<lparr>labels := l\<rparr>)])
     @ [Checked ''expiration_date''
          (\<lambda>d. d\<lparr>expiration_date := DateTimeToString env (sec_ExpirationDate secret)\<rparr>),
        Checked ''payload'' (\<lambda>d. d\<lparr>payload := str_of (sec_Payload secret)\<rparr>)]"

definition is_404 :: "DetailedResponse option \<Rightarrow> bool" where
  "is_404 response = (case response of None \<Rightarrow> False | Some r \<Rightarrow> StatusCode r = 404)"

definition resourceIbmSmArbitrarySecretRead :: "Env \<Rightarrow> ResourceData \<Rightarrow> op_result" where
  "resourceIbmSmArbitrarySecretRead env d =
     (case SecretsManagerV2 env of
        Some err \<Rightarrow> (Returned [err], d, [])
      | None \<Rightarrow>
          (let id = Split (Id_d d) (CHR ''/'') in
           if length id \<noteq> 3 then
             (Returned [Errorf ''Wrong format of resource ID. To import a secret use the format `<region>/<instance_id>/<secret_id>`'' []],
              d, [])
           else
             (let region' = id ! 0; instanceId = id ! 1; secretId = id ! 2 in
              case GetSecretWithContext env secretId of
                (secretIntf, response, err) \<Rightarrow>
                  (let tr = [(GetSecretWithContextCall secretId, response, err)] in
                   case err of
                     Some e \<Rightarrow>
                       (if is_404 response then (Returned [], d\<lparr>Id_d := []\<rparr>, tr)
                        else (Returned [Errorf (''GetSecretWithContext failed %s'' @ LF @ ''%s'')
                                          [AErr err, AResp response]], d, tr))
                   | None \<Rightarrow>
                       (case secretIntf of
                          ArbitrarySecretPtr secret \<Rightarrow>
                            (case run_sets env
                                    (read_sets env region' instanceId secretId secret) d of
                               (Some e, d') \<Rightarrow> (Returned [e], d', tr)
                             | (None, d') \<Rightarrow> (Returned [], d', tr))
                        | _ \<Rightarrow> (Panicked, d, tr))))))"

definition resourceIbmSmArbitrarySecretCreate :: "Env \<Rightarrow> ResourceData \<Rightarrow> op_result" where
  "resourceIbmSmArbitrarySecretCreate env d =
     (case SecretsManagerV2 env of
        Some err \<Rightarrow> (Returned [err], d, [])
      | None \<Rightarrow>
          (let region' = getRegion env d; instanceId = instance_id d in
           case resourceIbmSmArbitrarySecretMapToArbitrarySecretPrototype (time_Parse env) d of
             Inl err \<Rightarrow> (Returned [err], d, [])
           | Inr secretPrototypeModel \<Rightarrow>
               (case CreateSecretWithContext env secretPrototypeModel of
                  (secretIntf, response, err) \<Rightarrow>
                    (let tr1 = [(CreateSecretWithContextCall secretPrototypeModel, response, err)] in
                     case err of
                       Some e \<Rightarrow>
                         (Returned [Errorf (''CreateSecretWithContext failed %s'' @ LF @ ''%s'')
                                      [AErr err, AResp response]], d, tr1)
                     | None \<Rightarrow>
                         (case secretIntf of
                            ArbitrarySecretPtr secret \<Rightarrow>
                              (case sec_ID secret of
                                 None \<Rightarrow> (Panicked, d, tr1)
                               | Some sid \<Rightarrow>
                                   (let d1 = d\<lparr>Id_d := region' @ ''/'' @ instanceId @ ''/'' @ sid\<rparr>;
                                        d2 = snd (run_sets env
                                               [Unchecked ''secret_id'' (\<lambda>d. d\<lparr>secret_id := sid\<rparr>)] d1)
                                    in
                                    case waitForIbmSmArbitrarySecretCreate env d2 of
                                      (WaitPanic, tr2) \<Rightarrow> (Panicked, d2, tr1 @ tr2)
                                    | (WaitRet res (Some werr), tr2) \<Rightarrow>
                                        (Returned [Errorf ''Error waiting for resource IbmSmArbitrarySecret (%s) to be created: %s''
                                                     [AStr (Id_d d2), AErr (Some werr)]],
                                         d2, tr1 @ tr2)
                                    | (WaitRet res None, tr2) \<Rightarrow>
                                        (case resourceIbmSmArbitrarySecretRead env d2 of
                                           (out, d3, tr3) \<Rightarrow> (out, d3, tr1 @ tr2 @ tr3))))
                          | _ \<Rightarrow> (Panicked, d, tr1))))))"

definition patchVals :: "ResourceData \<Rightarrow> SecretMetadataPatch" where
  "patchVals d =
     \<lparr>patch_Name = (if HasChange d ''name'' then Some (name d) else None),
      patch_Description = (if HasChange d ''description'' then Some (description d) else None),
      patch_Labels = (if HasChange d ''labels'' then Some (map Sprint (labels d)) else None),
      patch_CustomMetadata =
        (if HasChange d ''custom_metadata'' then Some (custom_metadata d) else None)\<rparr>"

definition hasChange :: "ResourceData \<Rightarrow> bool" where
  "hasChange d =
     (HasChange d ''name'' \<or> HasChange d ''description'' \<or> HasChange d ''labels''
      \<or> HasChange d ''custom_metadata'')"

definition resourceIbmSmArbitrarySecretUpdate :: "Env \<Rightarrow> ResourceData \<Rightarrow> op_result" where
  "resourceIbmSmArbitrarySecretUpdate env d =
     (case SecretsManagerV2 env of
        Some err \<Rightarrow> (Returned [err], d, [])
      | None \<Rightarrow>
          (let id = Split (Id_d d) (CHR ''/'') in
           if length id < 3 then (Panicked, d, [])
           else
             (let secretId = id ! 2 in
              if hasChange d then
                (case UpdateSecretMetadataWithContext env secretId (patchVals d) of
                   (res, response, err) \<Rightarrow>
                     (let tr1 = [(UpdateSecretMetadataWithContextCall secretId (patchVals d),
                                  response, err)] in
                      case err of
                        Some e \<Rightarrow>
                          (Returned [Errorf (''UpdateSecretMetadataWithContext failed %s'' @ LF @ ''%s'')
                                       [AErr err, AResp response]], d, tr1)
                      | None \<Rightarrow>
                          (case resourceIbmSmArbitrarySecretRead env d of
                             (out, d', tr2) \<Rightarrow> (out, d', tr1 @ tr2))))
              else resourceIbmSmArbitrarySecretRead env d)))"

definition resourceIbmSmArbitrarySecretDelete :: "Env \<Rightarrow> ResourceData \<Rightarrow> op_result" where
  "resourceIbmSmArbitrarySecretDelete env d =
     (case SecretsManagerV2 env of
        Some err \<Rightarrow> (Returned [err], d, [])
      | None \<Rightarrow>
          (let id = Split (Id_d d) (CHR ''/'') in
           if length id < 3 then (Panicked, d, [])
           else
             (let secretId = id ! 2 in
              case DeleteSecretWithContext env secretId of
                (response, err) \<Rightarrow>
                  (let tr = [(DeleteSecretWithContextCall secretId, response, err)] in
                   case err of
                     Some e \<Rightarrow>
                       (Returned [Errorf (''DeleteSecretWithContext failed %s'' @ LF @ ''%s'')
                                    [AErr err, AResp response]], d, tr)
                   | None \<Rightarrow> (Returned [], d\<lparr>Id_d := []\<rparr>, tr)))))"

section \<open>The schema of the arbitrary-secret resource\<close>

text \<open>
  A schema entry: its type, its flags and the schema of its elements. Descriptions,
  validation functions and cross-attribute constraints are left out.
\<close>

datatype ValueType = TypeBool | TypeInt | TypeString | TypeList | TypeMap

record Flags =
  Required :: bool
  Optional :: bool
  Computed :: bool
  ForceNew :: bool
  Sensitive :: bool

definition no_flags :: Flags where
  "no_flags = \<lparr>Required = False, Optional = False, Computed = False, ForceNew = False,
     Sensitive = False\<rparr>"

datatype Schema = Schema (Type: ValueType) (flags: Flags) (Elem: Elem)
and Elem =
    NoElem
  | ElemSchema ValueType
  | ElemResource "(string \<times> Schema) list"

definition ResourceIbmSmArbitrarySecret :: "(string \<times> Schema) list" where
  "ResourceIbmSmArbitrarySecret =
     [(''name'', Schema TypeString (no_flags\<lparr>Required := True\<rparr>) NoElem),
      (''secret_type'', Schema TypeString (no_flags\<lparr>Computed := True\<rparr>) NoElem),
      (''payload'',
         Schema TypeString (no_flags\<lparr>Required := True, ForceNew := True, Sensitive := True\<rparr>)
           NoElem),
      (''custom_metadata'',
         Schema TypeMap (no_flags\<lparr>Optional := True, Computed := True\<rparr>)
           (ElemSchema TypeString)),
      (''description'', Schema TypeString (no_flags\<lparr>Optional := True\<rparr>) NoElem),
      (''expiration_date'', Schema TypeString (no_flags\<lparr>Optional := True\<rparr>) NoElem),
      (''labels'',
         Schema TypeList (no_flags\<lparr>Optional := True, Computed := True\<rparr>)
           (ElemSchema TypeString)),
      (''secret_group_id'',
         Schema TypeString (no_flags\<lparr>Optional := True, Computed := True, ForceNew := True\<rparr>)
           NoElem),
      (''version_custom_metadata'',
         Schema TypeMap (no_flags\<lparr>Optional := True\<rparr>) (ElemSchema TypeString)),
      (''created_by'', Schema TypeString (no_flags\<lparr>Computed := True\<rparr>) NoElem),
      (''created_at'', Schema TypeString (no_flags\<lparr>Computed := True\<rparr>) NoElem),
      (''crn'', Schema TypeString (no_flags\<lparr>Computed := True\<rparr>) NoElem),
      (''downloaded'', Schema TypeBool (no_flags\<lparr>Computed := True\<rparr>) NoElem),
      (''secret_id'', Schema TypeString (no_flags\<lparr>Computed := True\<rparr>) NoElem),
      (''locks_total'', Schema TypeInt (no_flags\<lparr>Computed := True\<rparr>) NoElem),
      (''state'', Schema TypeInt (no_flags\<lparr>Computed := True\<rparr>) NoElem),
      (''state_description'', Schema TypeString (no_flags\<lparr>Computed := True\<rparr>) NoElem),
      (''updated_at'', Schema TypeString (no_flags\<lparr>Computed := True\<rparr>) NoElem),
      (''versions_total'', Schema TypeInt (no_flags\<lparr>Computed := True\<rparr>) NoElem)]"

section \<open>The service-credentials data source\<close>

definition DataSourceIbmSmServiceCredentialsSecret :: "(string \<times> Schema) list" where
  "DataSourceIbmSmServiceCredentialsSecret =
     [(''secret_id'', Schema TypeString (no_flags\<lparr>Optional := True, Computed := True\<rparr>) NoElem),
      (''created_by'', Schema TypeString (no_flags\<lparr>Computed := True\<rparr>) NoElem),
      (''created_at'', Schema TypeString (no_flags\<lparr>Computed := True\<rparr>) NoElem),
      (''crn'', Schema TypeString (no_flags\<lparr>Computed := True\<rparr>) NoElem),
      (''custom_metadata'',
         Schema TypeMap (no_flags\<lparr>Optional := True, Computed := True\<rparr>)
           (ElemSchema TypeString)),
      (''description'', Schema TypeString (no_flags\<lparr>Optional := True\<rparr>) NoElem),
      (''downloaded'', Schema TypeBool (no_flags\<lparr>Computed := True\<rparr>) NoElem),
      (''labels'',
         Schema TypeList (no_flags\<lparr>Optional := True, Computed := True\<rparr>)
           (ElemSchema TypeString)),
      (''locks_total'', Schema TypeInt (no_flags\<lparr>Computed := True\<rparr>) NoElem),
      (''name'', Schema TypeString (no_flags\<lparr>Optional := True, Computed := True\<rparr>) NoElem),
      (''secret_group_id'',
         Schema TypeString (no_flags\<lparr>Optional := True, Computed := True, ForceNew := True\<rparr>)
           NoElem),
      (''secret_group_name'', Schema TypeString (no_flags\<lparr>Optional := True\<rparr>) NoElem),
      (''secret_type'', Schema TypeString (no_flags\<lparr>Computed := True\<rparr>) NoElem),
      (''state'', Schema TypeInt (no_flags\<lparr>Computed := True\<rparr>) NoElem),
      (''state_description'', Schema TypeString (no_flags\<lparr>Computed := True\<rparr>) NoElem),
      (''updated_at'', Schema TypeString (no_flags\<lparr>Computed := True\<rparr>) NoElem),
      (''versions_total'', Schema TypeInt (no_flags\<lparr>Computed := True\<rparr>) NoElem),
      (''version_custom_metadata'',
         Schema TypeMap (no_flags\<lparr>Optional := True, Computed := True\<rparr>)
           (ElemSchema TypeString)),
      (''ttl'', Schema TypeString (no_flags\<lparr>Computed := True\<rparr>) NoElem),
      (''rotation'',
         Schema TypeList (no_flags\<lparr>Computed := True\<rparr>)
           (ElemResource
              [(''auto_rotate'',
                  Schema TypeBool (no_flags\<lparr>Optional := True, Computed := True\<rparr>) NoElem),
               (''interval'',
                  Schema TypeInt (no_flags\<lparr>Optional := True, Computed := True\<rparr>) NoElem),
               (''unit'',
                  Schema TypeString (no_flags\<lparr>Optional := True, Computed := True\<rparr>) NoElem)])),
      (''next_rotation_date'', Schema TypeString (no_flags\<lparr>Computed := True\<rparr>) NoElem),
      (''credentials'',
         Schema TypeList (no_flags\<lparr>Computed := True\<rparr>)
           (ElemResource
              [(''apikey'',
                  Schema TypeString (no_flags\<lparr>Computed := True, Sensitive := True\<rparr>) NoElem),
               (''cos_hmac_keys'',
                  Schema TypeList (no_flags\<lparr>Computed := True\<rparr>)
                    (ElemResource
                       [(''access_key_id'',
                           Schema TypeString (no_flags\<lparr>Computed := True\<rparr>) NoElem),
                        (''secret_access_key'',
                           Schema TypeString (no_flags\<lparr>Computed := True\<rparr>) NoElem)])),
               (''endpoints'', Schema TypeString (no_flags\<lparr>Computed := True\<rparr>) NoElem),
               (''iam_apikey_description'',
                  Schema TypeString (no_flags\<lparr>Computed := True\<rparr>) NoElem),
               (''iam_apikey_name'', Schema TypeString (no_flags\<lparr>Computed := True\<rparr>) NoElem),
               (''iam_role_crn'', Schema TypeString (no_flags\<lparr>Computed := True\<rparr>) NoElem),
               (''iam_serviceid_crn'', Schema TypeString (no_flags\<lparr>Computed := True\<rparr>) NoElem),
               (''resource_instance_id'',
                  Schema TypeString (no_flags\<lparr>Computed := True\<rparr>) NoElem)])),
      (''source_service'',
         Schema TypeList (no_flags\<lparr>Computed := True\<rparr>)
           (ElemResource
              [(''instance'',
                  Schema TypeList (no_flags\<lparr>Computed := True\<rparr>)
                    (ElemResource
                       [(''crn'', Schema TypeString (no_flags\<lparr>Required := True\<rparr>) NoElem)])),
               (''role'',
                  Schema TypeList (no_flags\<lparr>Computed := True\<rparr>)
                    (ElemResource
                       [(''crn'', Schema TypeString (no_flags\<lparr>Computed := True\<rparr>) NoElem)])),
               (''iam'',
                  Schema TypeList (no_flags\<lparr>Computed := True\<rparr>)
                    (ElemResource
                       [(''apikey'',
                           Schema TypeList (no_flags\<lparr>Computed := True\<rparr>)
                             (ElemResource
                                [(''name'',
                                    Schema TypeString (no_flags\<lparr>Computed := True\<rparr>) NoElem),
                                 (''description'',
                                    Schema TypeString (no_flags\<lparr>Computed := True\<rparr>) NoElem)])),
                        (''role'',
                           Schema TypeList (no_flags\<lparr>Computed := True\<rparr>)
                             (ElemResource
                                [(''crn'',
                                    Schema TypeString (no_flags\<lparr>Computed := True\<rparr>) NoElem)])),
                        (''serviceid'',
                           Schema TypeList (no_flags\<lparr>Computed := True\<rparr>)
                             (ElemResource
                                [(''crn'',
                                    Schema TypeString (no_flags\<lparr>Computed := True\<rparr>) NoElem)]))])),
               (''resource_key'',
                  Schema TypeList (no_flags\<lparr>Computed := True\<rparr>)
                    (ElemResource
                       [(''crn'', Schema TypeString (no_flags\<lparr>Computed := True\<rparr>) NoElem),
                        (''name'', Schema TypeString (no_flags\<lparr>Computed := True\<rparr>) NoElem)])),
               (''parameters'', Schema TypeMap (no_flags\<lparr>Computed := True\<rparr>) NoElem)]))]"

text \<open>The names of the top-level attributes a schema declares \<open>Computed\<close>.\<close>

definition computed_attributes :: "(string \<times> Schema) list \<Rightarrow> string list" where
  "computed_attributes sch = map fst (filter (\<lambda>(k, s). Computed (flags s)) sch)"

text \<open>
  The data source writes attributes by name only, so its resource data is the identifier
  and a map from attribute names to the values written.
\<close>

datatype tfval =
    VNil
  | VString string
  | VInt int
  | VBool bool
  | VList "tfval list"
  | VMap "(string \<times> tfval) list"

record DataSourceData =
  ds_Id :: string
  ds_attrs :: "string \<rightharpoonup> tfval"

record CommonRotationPolicy =
  rot_AutoRotate :: "bool option"
  rot_Interval :: "int option"
  rot_Unit :: "string option"

datatype RotationPolicyIntf =
    NilRotation
  | CommonRotationPolicyPtr CommonRotationPolicy
  | OtherRotationPolicyPtr

record ServiceCredentialsSecretCredentials =
  cred_Apikey :: "string option"
  cred_CosHmacKeys :: "(string option \<times> string option) option"
  cred_Endpoints :: "string option"
  cred_IamApikeyDescription :: "string option"
  cred_IamApikeyName :: "string option"
  cred_IamRoleCrn :: "string option"
  cred_IamServiceidCrn :: "string option"
  cred_ResourceInstanceID :: "string option"

record ServiceCredentialsSecretSourceService =
  src_InstanceCrn :: "string option"
  src_RoleCrn :: "string option"
  src_IamApikeyName :: "string option"
  src_IamApikeyDescription :: "string option"
  src_IamRoleCrn :: "string option"
  src_IamServiceidCrn :: "string option"
  src_ResourceKeyCrn :: "string option"
  src_ResourceKeyName :: "string option"
  src_Parameters :: "(string \<times> string) list"

record ServiceCredentialsSecret =
  scs_ID :: "string option"
  scs_CreatedBy :: "string option"
  scs_CreatedAt :: "DateTime option"
  scs_Crn :: "string option"
  scs_CustomMetadata :: "(string \<times> string) list option"
  scs_Description :: "string option"
  scs_Downloaded :: "bool option"
  scs_Labels :: "string list option"
  scs_LocksTotal :: "int option"
  scs_Name :: "string option"
  scs_SecretGroupID :: "string option"
  scs_SecretType :: "string option"
  scs_State :: "int option"
  scs_StateDescription :: "string option"
  scs_UpdatedAt :: "DateTime option"
  scs_VersionsTotal :: "int option"
  scs_TTL :: "string option"
  scs_Rotation :: RotationPolicyIntf
  scs_NextRotationDate :: "DateTime option"
  scs_Credentials :: "ServiceCredentialsSecretCredentials option"
  scs_SourceService :: "ServiceCredentialsSecretSourceService option"

datatype ServiceCredentialsSecretIntf =
    NilServiceCredentials
  | ServiceCredentialsSecretPtr ServiceCredentialsSecret
  | OtherServiceCredentialsPtr

text \<open>
  What the data source takes from other files: the answer of \<open>getSecretByIdOrByName\<close>
  (the secret, the region, the instance and the diagnostics, empty on success), the
  helpers \<open>DateTimeToRFC3339\<close>, \<open>flex.IntValue\<close> and \<open>flex.Flatten\<close>, and the error
  of \<open>d.Set\<close> for a key.
\<close>

record DsEnv =
  getSecretByIdOrByName ::
    "DataSourceData \<Rightarrow> ServiceCredentialsSecretIntf \<times> string \<times> string \<times> error list"
  DateTimeToRFC3339 :: "DateTime option \<Rightarrow> string"
  ds_IntValue :: "int option \<Rightarrow> int"
  Flatten :: "(string \<times> string) list \<Rightarrow> (string \<times> string) list"
  ds_Set_error :: "string \<Rightarrow> error option"

definition vstr :: "string option \<Rightarrow> tfval" where
  "vstr p = (case p of None \<Rightarrow> VNil | Some s \<Rightarrow> VString s)"

definition vbool :: "bool option \<Rightarrow> tfval" where
  "vbool p = (case p of None \<Rightarrow> VNil | Some b \<Rightarrow> VBool b)"

definition vmap :: "(string \<times> string) list \<Rightarrow> tfval" where
  "vmap m = VMap (map (\<lambda>(k, v). (k, VString v)) m)"

definition dataSourceIbmSmServiceCredentialsSecretRotationPolicyToMap ::
    "CommonRotationPolicy \<Rightarrow> (string \<times> tfval) list \<times> error option" where
  "dataSourceIbmSmServiceCredentialsSecretRotationPolicyToMap model =
     ((case rot_AutoRotate model of None \<Rightarrow> [] | Some b \<Rightarrow> [(''auto_rotate'', VBool b)])
      @ (case rot_Interval model of None \<Rightarrow> [] | Some i \<Rightarrow> [(''interval'', VInt i)])
      @ (case rot_Unit model of None \<Rightarrow> [] | Some u \<Rightarrow> [(''unit'', VString u)]),
      None)"

text \<open>
  A run of \<open>d.Set\<close> calls, each with the format of the diagnostic the source returns
  when the call fails.
\<close>

fun ds_run_sets :: "DsEnv \<Rightarrow> (string \<times> tfval \<times> string) list \<Rightarrow> DataSourceData
    \<Rightarrow> error option \<times> DataSourceData" where
  "ds_run_sets env [] d = (None, d)"
| "ds_run_sets env ((k, v, f) # ss) d =
     (case ds_Set_error env k of
        Some err \<Rightarrow> (Some (Errorf f [AErr (Some err)]), d)
      | None \<Rightarrow> ds_run_sets env ss (d\<lparr>ds_attrs := (ds_attrs d)(k \<mapsto> v)\<rparr>))"

definition ds_sets_before_rotation :: "DsEnv \<Rightarrow> string \<Rightarrow> ServiceCredentialsSecret
    \<Rightarrow> (string \<times> tfval \<times> string) list" where
  "ds_sets_before_rotation env region' s =
     [(''region'', VString region', ''Error setting region: %s''),
      (''created_by'', vstr (scs_CreatedBy s), ''Error setting created_by: %s''),
      (''created_at'', VString (DateTimeToRFC3339 env (scs_CreatedAt s)),
         ''Error setting created_at: %s''),
      (''crn'', vstr (scs_Crn s), ''Error setting crn: %s'')]
     @ (case scs_CustomMetadata s of
          None \<Rightarrow> []
        | Some m \<Rightarrow>
            [(''custom_metadata'', vmap (Flatten env m), ''Error setting custom_metadata: %s'')])
     @ [(''description'', vstr (scs_Description s), ''Error setting description: %s''),
        (''downloaded'', vbool (scs_Downloaded s), ''Error setting downloaded: %s'')]
     @ (case scs_Labels s of
          None \<Rightarrow> []
        | Some l \<Rightarrow> [(''labels'', VList (map VString l), ''Error setting labels: %s'')])
     @ [(''locks_total'', VInt (ds_IntValue env (scs_LocksTotal s)),
           ''Error setting locks_total: %s''),
        (''name'', vstr (scs_Name s), ''Error setting name: %s''),
        (''secret_group_id'', vstr (scs_SecretGroupID s), ''Error setting secret_group_id: %s''),
        (''secret_type'', vstr (scs_SecretType s), ''Error setting secret_type: %s''),
        (''state'', VInt (ds_IntValue env (scs_State s)), ''Error setting state: %s''),
        (''state_description'', vstr (scs_StateDescription s),
           ''Error setting state_description: %s''),
        (''updated_at'', VString (DateTimeToRFC3339 env (scs_UpdatedAt s)),
           ''Error setting updated_at: %s''),
        (''versions_total'', VInt (ds_IntValue env (scs_VersionsTotal s)),
           ''Error setting versions_total: %s''),
        (''ttl'', vstr (scs_TTL s), ''Error setting ttl: %s'')]"

definition dataSourceIbmSmServiceCredentialsSecretRead :: "DsEnv \<Rightarrow> DataSourceData
    \<Rightarrow> outcome \<times> DataSourceData" where
  "dataSourceIbmSmServiceCredentialsSecretRead env d =
     (case getSecretByIdOrByName env d of
        (ServiceCredentialsSecretIntf, region', instanceId, diagError) \<Rightarrow>
          if diagError \<noteq> [] then (Returned diagError, d)
          else
            (case ServiceCredentialsSecretIntf of
               ServiceCredentialsSecretPtr s \<Rightarrow>
                 (case scs_ID s of
                    None \<Rightarrow> (Panicked, d)
                  | Some sid \<Rightarrow>
                      (let d1 = d\<lparr>ds_Id := region' @ ''/'' @ instanceId @ ''/'' @ sid\<rparr> in
                       case ds_run_sets env (ds_sets_before_rotation env region' s) d1 of
                         (Some e, d2) \<Rightarrow> (Returned [e], d2)
                       | (None, d2) \<Rightarrow>
                           (case scs_Rotation s of
                              OtherRotationPolicyPtr \<Rightarrow> (Panicked, d2)
                            | rot \<Rightarrow>
                                (case (case rot of
                                         CommonRotationPolicyPtr model \<Rightarrow>
                                           (case dataSourceIbmSmServiceCredentialsSecretRotationPolicyToMap model of
                                              (modelMap, None) \<Rightarrow> Inr [VMap modelMap]
                                            | (modelMap, Some err) \<Rightarrow> Inl err)
                                       | _ \<Rightarrow> Inr []) of
                                   Inl err \<Rightarrow> (Returned [err], d2)
                                 | Inr rotation \<Rightarrow>
                                     (case ds_run_sets env
                                             [(''rotation'', VList rotation, ''Error setting rotation %s''),
                                              (''next_rotation_date'',
                                                 VString (DateTimeToRFC3339 env (scs_NextRotationDate s)),
                                                 ''Error setting next_rotation_date: %s'')] d2 of
                                        (Some e, d3) \<Rightarrow> (Returned [e], d3)
                                      | (None, d3) \<Rightarrow> (Returned [], d3))))))
             | _ \<Rightarrow> (Panicked, d)))"

section \<open>Notions used to state the properties\<close>

text \<open>
  The state description that the \<open>k\<close>-th \<open>GetSecret\<close> of a creation poll delivers,
  when that call succeeds with an arbitrary secret.
\<close>

definition polled_state :: "Env \<Rightarrow> string \<Rightarrow> nat \<Rightarrow> string option" where
  "polled_state env secretId k =
     (case GetSecret env k secretId of
        (ArbitrarySecretPtr obj, response, None) \<Rightarrow> sec_StateDescription obj
      | _ \<Rightarrow> None)"

text \<open>A refresh that reports a pending state, and one that reports a target state.\<close>

definition pending_at :: "StateChangeConf \<Rightarrow> refresh_result \<Rightarrow> bool" where
  "pending_at conf r =
     (case r of
        RefreshRet res st None \<Rightarrow> st \<notin> set (Target conf) \<and> st \<in> set (Pending conf)
      | _ \<Rightarrow> False)"

definition target_at :: "StateChangeConf \<Rightarrow> refresh_result \<Rightarrow> bool" where
  "target_at conf r =
     (case r of RefreshRet res st None \<Rightarrow> st \<in> set (Target conf) | _ \<Rightarrow> False)"

text \<open>The name of the client method behind a call, and which calls belong to the poll.\<close>

fun call_name :: "call \<Rightarrow> string" where
  "call_name (CreateSecretWithContextCall p) = ''CreateSecretWithContext''"
| "call_name (GetSecretCall i) = ''GetSecret''"
| "call_name (GetSecretWithContextCall i) = ''GetSecretWithContext''"
| "call_name (UpdateSecretMetadataWithContextCall i p) = ''UpdateSecretMetadataWithContext''"
| "call_name (DeleteSecretWithContextCall i) = ''DeleteSecretWithContext''"

fun is_poll_call :: "call \<Rightarrow> bool" where
  "is_poll_call (GetSecretCall i) = True"
| "is_poll_call c = False"

fun is_update_call :: "call \<Rightarrow> bool" where
  "is_update_call (UpdateSecretMetadataWithContextCall i p) = True"
| "is_update_call c = False"

text \<open>The only request type with a field for the payload is the create prototype.\<close>

fun carries_payload :: "call \<Rightarrow> bool" where
  "carries_payload (CreateSecretWithContextCall p) = True"
| "carries_payload c = False"

text \<open>
  A failed \<open>GetSecretWithContext\<close> that came back with a non-nil response of status 404:
  the case the read function treats as a secret that is gone.
\<close>

fun gone_404 :: "call \<times> DetailedResponse option \<times> error option \<Rightarrow> bool" where
  "gone_404 (GetSecretWithContextCall i, response, Some e) = is_404 response"
| "gone_404 x = False"

text \<open>
  An operation wraps its failed calls: whenever a call outside the creation poll has
  failed, other than a \<open>GetSecretWithContext\<close> answered with 404, the operation
  returns the single diagnostic made of the name of the call, \<open>failed\<close>, the error and
  the response.
\<close>

definition wraps_failed_calls :: "op_result \<Rightarrow> bool" where
  "wraps_failed_calls r =
     (\<forall>x \<in> set (snd (snd r)).
        snd (snd x) \<noteq> None \<and> \<not> is_poll_call (fst x) \<and> \<not> gone_404 x \<longrightarrow>
        fst r = Returned [Errorf (call_name (fst x) @ '' failed %s'' @ LF @ ''%s'')
                            [AErr (snd (snd x)), AResp (fst (snd x))]])"

text \<open>
  An operation returns at its first failure: a failed call outside the creation poll is
  the last call of the operation, and the operation returns, with no diagnostic when
  the call is a \<open>GetSecretWithContext\<close> answered with 404 and with an error diagnostic
  otherwise.
\<close>

definition returns_at_first_failure :: "op_result \<Rightarrow> bool" where
  "returns_at_first_failure r =
     (\<forall>pre x post.
        snd (snd r) = pre @ x # post \<and> snd (snd x) \<noteq> None \<and> \<not> is_poll_call (fst x) \<longrightarrow>
        post = [] \<and> (\<exists>diags. fst r = Returned diags \<and> (diags = [] \<longleftrightarrow> gone_404 x)))"

section \<open>Concrete inputs\<close>

definition secret0 :: ArbitrarySecret where
  "secret0 =
     \<lparr>sec_ID = Some ''abc'', sec_CreatedBy = Some ''iam-user'', sec_CreatedAt = None,
      sec_Crn = Some ''crn:v1:secret'', sec_Downloaded = Some True, sec_LocksTotal = Some 0,
      sec_Name = Some ''my-secret'', sec_SecretGroupID = Some ''default'',
      sec_SecretType = Some ''arbitrary'', sec_State = Some 1,
      sec_StateDescription = Some ''active'', sec_UpdatedAt = None,
      sec_VersionsTotal = Some 1, sec_CustomMetadata = None, sec_Description = None,
      sec_Labels = Some [''dev''], sec_ExpirationDate = None, sec_Payload = Some ''s3cr3t''\<rparr>"

definition d0 :: ResourceData where
  "d0 =
     \<lparr>Id_d = ''us-south/inst-1/abc'', HasChange = (\<lambda>k. k = ''name'' \<or> k = ''labels''),
      TimeoutCreate = 1200, instance_id = ''inst-1'', region = ''us-south'',
      name = ''my-secret'', secret_type = [], payload = ''s3cr3t'', custom_metadata = [],
      description = [], expiration_date = ''2030-01-01T00:00:00Z'', labels = [''dev''],
      secret_group_id = [], version_custom_metadata = [], created_by = [], created_at = [],
      crn = [], downloaded = False, secret_id = [], locks_total = 0, state = 0,
      state_description = [], updated_at = [], versions_total = 0\<rparr>"

text \<open>
  A service that creates the secret, reports it in pre-activation for two polls and
  active afterwards, and answers every other call with success.
\<close>

definition env0 :: Env where
  "env0 =
     \<lparr>SecretsManagerV2 = None,
      getRegion = (\<lambda>d. ''us-south''),
      time_Parse = (\<lambda>s. if s = ''2030-01-01T00:00:00Z'' then Inr (DateTime 1893456000)
                         else Inl ''cannot parse''),
      DateTimeToString = (\<lambda>t. case t of None \<Rightarrow> [] | Some x \<Rightarrow> ''2030-01-01T00:00:00Z''),
      IntValue = (\<lambda>i. case i of None \<Rightarrow> 0 | Some x \<Rightarrow> x),
      Set_error = (\<lambda>k. None),
      CreateSecretWithContext =
        (\<lambda>p. (ArbitrarySecretPtr (secret0\<lparr>sec_StateDescription := Some ''pre_activation''\<rparr>),
              Some \<lparr>StatusCode = 201\<rparr>, None)),
      GetSecret =
        (\<lambda>k i. (ArbitrarySecretPtr
                   (secret0\<lparr>sec_StateDescription :=
                      Some (if k < 2 then ''pre_activation'' else ''active'')\<rparr>),
                 Some \<lparr>StatusCode = 200\<rparr>, None)),
      GetSecretWithContext = (\<lambda>i. (ArbitrarySecretPtr secret0, Some \<lparr>StatusCode = 200\<rparr>, None)),
      UpdateSecretMetadataWithContext =
        (\<lambda>i p. (ArbitrarySecretPtr secret0, Some \<lparr>StatusCode = 200\<rparr>, None)),
      DeleteSecretWithContext = (\<lambda>i. (Some \<lparr>StatusCode = 204\<rparr>, None)),
      refreshes_within = (\<lambda>t. t div 5)\<rparr>"

text \<open>Answers of a failing service: the secret is gone, and the service is down.\<close>

definition not_found :: sdk_result where
  "not_found = (NilIntf, Some \<lparr>StatusCode = 404\<rparr>, Some (ClientError ''Not Found'' (Some 404)))"

definition unavailable :: sdk_result where
  "unavailable =
     (NilIntf, Some \<lparr>StatusCode = 503\<rparr>, Some (ClientError ''Service Unavailable'' (Some 503)))"

text \<open>
  A service-credentials secret as the service returns it, with its credentials and its
  source service, and a data source whose state is still empty.
\<close>

definition credentials0 :: ServiceCredentialsSecretCredentials where
  "credentials0 =
     \<lparr>cred_Apikey = Some ''api-key-1'', cred_CosHmacKeys = None, cred_Endpoints = None,
      cred_IamApikeyDescription = None, cred_IamApikeyName = Some ''key-name'',
      cred_IamRoleCrn = Some ''crn:v1:role'', cred_IamServiceidCrn = Some ''crn:v1:serviceid'',
      cred_ResourceInstanceID = None\<rparr>"

definition source_service0 :: ServiceCredentialsSecretSourceService where
  "source_service0 =
     \<lparr>src_InstanceCrn = Some ''crn:v1:cos'', src_RoleCrn = Some ''crn:v1:role'',
      src_IamApikeyName = None, src_IamApikeyDescription = None, src_IamRoleCrn = None,
      src_IamServiceidCrn = None, src_ResourceKeyCrn = None, src_ResourceKeyName = None,
      src_Parameters = []\<rparr>"

definition service_credentials0 :: ServiceCredentialsSecret where
  "service_credentials0 =
     \<lparr>scs_ID = Some ''abc'', scs_CreatedBy = Some ''iam-user'', scs_CreatedAt = None,
      scs_Crn = Some ''crn:v1:secret'', scs_CustomMetadata = None, scs_Description = None,
      scs_Downloaded = Some True, scs_Labels = None, scs_LocksTotal = Some 0,
      scs_Name = Some ''my-credentials'', scs_SecretGroupID = Some ''default'',
      scs_SecretType = Some ''service_credentials'', scs_State = Some 1,
      scs_StateDescription = Some ''active'', scs_UpdatedAt = None,
      scs_VersionsTotal = Some 1, scs_TTL = Some ''86400'', scs_Rotation = NilRotation,
      scs_NextRotationDate = None, scs_Credentials = Some credentials0,
      scs_SourceService = Some source_service0\<rparr>"

definition ds_env0 :: DsEnv where
  "ds_env0 =
     \<lparr>getSecretByIdOrByName =
        (\<lambda>d. (ServiceCredentialsSecretPtr service_credentials0, ''us-south'', ''inst-1'', [])),
      DateTimeToRFC3339 = (\<lambda>t. case t of None \<Rightarrow> [] | Some x \<Rightarrow> ''2030-01-01T00:00:00Z''),
      ds_IntValue = (\<lambda>i. case i of None \<Rightarrow> 0 | Some x \<Rightarrow> x),
      Flatten = (\<lambda>m. m),
      ds_Set_error = (\<lambda>k. None)\<rparr>"

definition ds_d0 :: DataSourceData where
  "ds_d0 = \<lparr>ds_Id = [], ds_attrs = Map.empty\<rparr>"

section \<open>Lemmas about the poll and the lifecycle functions\<close>

lemma poll_skip_pending:
  "i \<le> n \<Longrightarrow> \<forall>j<i. pending_at conf (refresh (k + j)) \<Longrightarrow>
    \<exists>l'. poll conf refresh n k l = poll conf refresh (n - i) (k + i) l'"
proof (induction i arbitrary: n k l)
  case 0
  then show ?case by auto
next
  case (Suc i)
  then obtain n' where n: "n = Suc n'" by (cases n) auto
  from Suc.prems have p0: "pending_at conf (refresh k)" by force
  then obtain res st where r: "refresh k = RefreshRet res st None" "st \<notin> set (Target conf)" "st \<in> set (Pending conf)"
    by (auto simp: pending_at_def split: refresh_result.splits option.splits)
  have "\<forall>j<i. pending_at conf (refresh (Suc k + j))" using Suc.prems by force
  moreover have "i \<le> n'" using Suc.prems n by simp
  ultimately obtain l' where "poll conf refresh n' (Suc k) st = poll conf refresh (n' - i) (Suc k + i) l'"
    using Suc.IH by blast
  then show ?case using r n by auto
qed

lemma poll_done_pending_prefix:
  "fst (poll conf refresh n k l) = WaitRet res None \<Longrightarrow>
    \<exists>i<n. target_at conf (refresh (k + i)) \<and> (\<forall>j<i. pending_at conf (refresh (k + j)))"
proof (induction n arbitrary: k l)
  case 0
  then show ?case by simp
next
  case (Suc n)
  show ?case
  proof (cases "target_at conf (refresh k)")
    case True
    then show ?thesis by (intro exI[of _ 0]) simp
  next
    case False
    with Suc.prems obtain r st where r: "refresh k = RefreshRet r st None" "st \<notin> set (Target conf)" "st \<in> set (Pending conf)"
      and p: "fst (poll conf refresh n (Suc k) st) = WaitRet res None"
      by (auto simp: target_at_def split: refresh_result.splits option.splits if_splits)
    from Suc.IH[OF p] obtain i where i: "i < n" "target_at conf (refresh (Suc k + i))"
      "\<forall>j<i. pending_at conf (refresh (Suc k + j))" by blast
    have pk: "pending_at conf (refresh k)" using r by (simp add: pending_at_def)
    have "\<forall>j<Suc i. pending_at conf (refresh (k + j))"
    proof (intro allI impI)
      fix j assume "j < Suc i"
      then show "pending_at conf (refresh (k + j))"
        using pk i(3) by (cases j) auto
    qed
    then show ?thesis using i by (intro exI[of _ "Suc i"]) simp
  qed
qed

lemma Refresh_pending_iff:
  "pending_at (stateConf d) (Refresh (GetSecret env k s)) \<longleftrightarrow>
     polled_state env s k = Some ''pre_activation''"
  by (auto simp: pending_at_def polled_state_def Refresh_def stateConf_def failStates_def
      index_bool_def split: prod.splits SecretIntf.splits option.splits refresh_result.splits if_splits)

lemma Refresh_target_iff:
  "target_at (stateConf d) (Refresh (GetSecret env k s)) \<longleftrightarrow>
     polled_state env s k = Some ''active''"
  by (auto simp: target_at_def polled_state_def Refresh_def stateConf_def failStates_def
      index_bool_def split: prod.splits SecretIntf.splits option.splits refresh_result.splits if_splits)

lemma poll_target:
  "target_at conf (refresh k) \<Longrightarrow> \<exists>res. poll conf refresh (Suc n) k l = (WaitRet res None, Suc k)"
  by (auto simp: target_at_def split: refresh_result.splits option.splits)

lemma poll_error:
  "refresh k = RefreshRet res st (Some e) \<Longrightarrow>
     poll conf refresh (Suc n) k l = (WaitRet res (Some e), Suc k)"
  by simp

lemma poll_done_iff:
  "(\<exists>res. fst (poll conf refresh n 0 l) = WaitRet res None) \<longleftrightarrow>
     (\<exists>i<n. target_at conf (refresh i) \<and> (\<forall>j<i. pending_at conf (refresh j)))"
proof
  assume "\<exists>res. fst (poll conf refresh n 0 l) = WaitRet res None"
  then show "\<exists>i<n. target_at conf (refresh i) \<and> (\<forall>j<i. pending_at conf (refresh j))"
    using poll_done_pending_prefix[of conf refresh n 0 l] by auto
next
  assume "\<exists>i<n. target_at conf (refresh i) \<and> (\<forall>j<i. pending_at conf (refresh j))"
  then obtain i where i: "i < n" "target_at conf (refresh i)" "\<forall>j<i. pending_at conf (refresh j)"
    by blast
  from i(1) obtain m where m: "n - i = Suc m" by (cases "n - i") auto
  from poll_skip_pending[of i n conf refresh 0 l] i obtain l' where
    "poll conf refresh n 0 l = poll conf refresh (n - i) i l'" by auto
  with poll_target[of conf refresh i m l'] i(2) m show "\<exists>res. fst (poll conf refresh n 0 l) = WaitRet res None"
    by auto
qed

lemma poll_timeout:
  assumes "\<forall>j<n. pending_at conf (refresh j)"
  shows "\<exists>l'. poll conf refresh n 0 l = (WaitRet None (Some (TimeoutError l' (Target conf))), n)"
  using poll_skip_pending[of n n conf refresh 0 l] assms by auto

lemma wait_unfold:
  "3 \<le> length (Split (Id_d d) (CHR ''/'')) \<Longrightarrow>
   waitForIbmSmArbitrarySecretCreate env d =
     (case poll (stateConf d) (\<lambda>k. Refresh (GetSecret env k (Split (Id_d d) (CHR ''/'') ! 2)))
             (refreshes_within env (TimeoutCreate d)) 0 [] of
        (w, n) \<Rightarrow> (w, map (\<lambda>k. (GetSecretCall (Split (Id_d d) (CHR ''/'') ! 2),
                                 snd (GetSecret env k (Split (Id_d d) (CHR ''/'') ! 2)))) [0..<n]))"
  by (simp add: waitForIbmSmArbitrarySecretCreate_def WaitForState_def Let_def stateConf_def)

lemma Split_nonempty: "Split s c \<noteq> []"
  by (induction s) (auto split: list.splits)

lemma Split_append: "Split (a @ c # b) c = Split a c @ Split b c"
proof (induction a)
  case Nil
  then show ?case by simp
next
  case (Cons x xs)
  obtain y ys where y: "Split xs c = y # ys"
    using Split_nonempty[of xs c] by (cases "Split xs c") auto
  show ?case using Cons y by simp
qed

lemma Split_length_pos: "1 \<le> length (Split s c)"
  using Split_nonempty[of s c] by (cases "Split s c") auto

lemma Split_ident_length:
  "3 \<le> length (Split (r @ ''/'' @ i @ ''/'' @ s) (CHR ''/''))"
proof -
  have "Split (r @ ''/'' @ i @ ''/'' @ s) (CHR ''/'')
      = Split r (CHR ''/'') @ Split i (CHR ''/'') @ Split s (CHR ''/'')"
    using Split_append[of r "CHR ''/''" "i @ ''/'' @ s"] Split_append[of i "CHR ''/''" s]
    by simp
  then show ?thesis
    using Split_length_pos[of r "CHR ''/''"] Split_length_pos[of i "CHR ''/''"]
      Split_length_pos[of s "CHR ''/''"] by simp
qed

lemma wait_cong:
  "Id_d d = Id_d d' \<Longrightarrow> TimeoutCreate d = TimeoutCreate d' \<Longrightarrow>
   waitForIbmSmArbitrarySecretCreate env d = waitForIbmSmArbitrarySecretCreate env d'"
proof -
  assume a: "Id_d d = Id_d d'" "TimeoutCreate d = TimeoutCreate d'"
  then have eq: "stateConf d = stateConf d'" by (simp add: stateConf_def)
  show ?thesis unfolding waitForIbmSmArbitrarySecretCreate_def a(1) eq by (rule refl)
qed

lemma set_secret_id_frame:
  "Id_d (snd (run_sets env [Unchecked ''secret_id'' (\<lambda>d. d\<lparr>secret_id := sid\<rparr>)] d)) = Id_d d"
  "TimeoutCreate (snd (run_sets env [Unchecked ''secret_id'' (\<lambda>d. d\<lparr>secret_id := sid\<rparr>)] d))
     = TimeoutCreate d"
  by (simp_all split: option.splits)

lemma poll_fail_at:
  assumes "k < n" and "\<forall>j<k. pending_at conf (refresh j)"
    and "refresh k = RefreshRet res st (Some e)"
  shows "poll conf refresh n 0 l = (WaitRet res (Some e), Suc k)"
proof -
  from assms(1) obtain m where m: "n - k = Suc m" by (cases "n - k") auto
  from poll_skip_pending[of k n conf refresh 0 l] assms obtain l' where
    "poll conf refresh n 0 l = poll conf refresh (n - k) k l'" by auto
  then show ?thesis using m assms(3) by simp
qed

lemma Refresh_destroyed:
  assumes "r = (ArbitrarySecretPtr obj, resp, None)" and "sec_StateDescription obj = Some ''destroyed''"
  shows "Refresh r = RefreshRet (Some obj) ''destroyed''
           (Some (Errorf (''The instance %s failed: %s'' @ LF @ ''%s'')
                    [AStr ''getSecretOptions'', AErr None, AResp resp]))"
  using assms by (simp add: Refresh_def failStates_def index_bool_def)

lemma wait_fail_state:
  assumes len: "3 \<le> length (Split (Id_d d) (CHR ''/''))"
    and sid: "secretId = Split (Id_d d) (CHR ''/'') ! 2"
    and k: "k < refreshes_within env (TimeoutCreate d)"
    and pend: "\<forall>j<k. polled_state env secretId j = Some ''pre_activation''"
    and get: "GetSecret env k secretId = (ArbitrarySecretPtr obj, resp, None)"
    and st: "sec_StateDescription obj = Some ''destroyed''"
  shows "waitForIbmSmArbitrarySecretCreate env d =
     (WaitRet (Some obj)
        (Some (Errorf (''The instance %s failed: %s'' @ LF @ ''%s'')
                 [AStr ''getSecretOptions'', AErr None, AResp resp])),
      map (\<lambda>j. (GetSecretCall secretId, snd (GetSecret env j secretId))) [0..<Suc k])"
proof -
  let ?refresh = "\<lambda>k. Refresh (GetSecret env k secretId)"
  have p: "\<forall>j<k. pending_at (stateConf d) (?refresh j)"
    using pend by (simp add: Refresh_pending_iff)
  have r: "?refresh k = RefreshRet (Some obj) ''destroyed''
           (Some (Errorf (''The instance %s failed: %s'' @ LF @ ''%s'')
                    [AStr ''getSecretOptions'', AErr None, AResp resp]))"
    using Refresh_destroyed[OF get st] .
  from poll_fail_at[OF k p r, of "[]"] show ?thesis
    using wait_unfold[OF len, of env] sid by simp
qed

lemma map_Sprint: "map Sprint xs = xs"
  by (induction xs) (simp_all add: Sprint_def)

lemma Read_no_call:
  "SecretsManagerV2 env \<noteq> None \<or> length (Split (Id_d d) (CHR ''/'')) \<noteq> 3 \<Longrightarrow>
   snd (snd (resourceIbmSmArbitrarySecretRead env d)) = []"
  by (auto simp: resourceIbmSmArbitrarySecretRead_def Let_def split: option.splits)

lemma Read_one_call:
  assumes "SecretsManagerV2 env = None" and "length (Split (Id_d d) (CHR ''/'')) = 3"
    and "GetSecretWithContext env (Split (Id_d d) (CHR ''/'') ! 2) = (intf, resp, err)"
  shows "snd (snd (resourceIbmSmArbitrarySecretRead env d))
           = [(GetSecretWithContextCall (Split (Id_d d) (CHR ''/'') ! 2), resp, err)]"
    and "err \<noteq> None \<Longrightarrow>
           fst (resourceIbmSmArbitrarySecretRead env d)
             = (if is_404 resp then Returned []
                else Returned [Errorf (''GetSecretWithContext failed %s'' @ LF @ ''%s'')
                                 [AErr err, AResp resp]])"
  using assms
  by (auto simp: resourceIbmSmArbitrarySecretRead_def Let_def
      split: option.splits prod.splits SecretIntf.splits)

lemma Read_shape:
  "snd (snd (resourceIbmSmArbitrarySecretRead env d)) = []
   \<or> (\<exists>s resp err.
         snd (snd (resourceIbmSmArbitrarySecretRead env d)) = [(GetSecretWithContextCall s, resp, err)]
         \<and> (err \<noteq> None \<longrightarrow>
               fst (resourceIbmSmArbitrarySecretRead env d)
                 = (if is_404 resp then Returned []
                    else Returned [Errorf (''GetSecretWithContext failed %s'' @ LF @ ''%s'')
                                     [AErr err, AResp resp]])))"
proof (cases "SecretsManagerV2 env = None \<and> length (Split (Id_d d) (CHR ''/'')) = 3")
  case False
  then show ?thesis using Read_no_call[of env d] by blast
next
  case True
  obtain intf resp err where
    g: "GetSecretWithContext env (Split (Id_d d) (CHR ''/'') ! 2) = (intf, resp, err)"
    by (cases "GetSecretWithContext env (Split (Id_d d) (CHR ''/'') ! 2)") auto
  show ?thesis
    using Read_one_call[OF conjunct1[OF True] conjunct2[OF True] g] by blast
qed

lemma Read_trace_no_update:
  "\<forall>x \<in> set (snd (snd (resourceIbmSmArbitrarySecretRead env d))).
     \<not> is_update_call (fst x) \<and> \<not> carries_payload (fst x) \<and> \<not> is_poll_call (fst x)"
  using Read_shape[of env d] by auto

lemma Update_unfold:
  assumes "SecretsManagerV2 env = None" and "3 \<le> length (Split (Id_d d) (CHR ''/''))"
  shows "snd (snd (resourceIbmSmArbitrarySecretUpdate env d)) =
     (if hasChange d then
        (case UpdateSecretMetadataWithContext env (Split (Id_d d) (CHR ''/'') ! 2) (patchVals d) of
           (res, response, err) \<Rightarrow>
             (UpdateSecretMetadataWithContextCall (Split (Id_d d) (CHR ''/'') ! 2) (patchVals d),
              response, err)
             # (case err of Some e \<Rightarrow> []
                | None \<Rightarrow> snd (snd (resourceIbmSmArbitrarySecretRead env d))))
      else snd (snd (resourceIbmSmArbitrarySecretRead env d)))"
  using assms
  by (simp add: resourceIbmSmArbitrarySecretUpdate_def Let_def
      split: option.splits prod.splits)

lemma wait_trace_polls:
  "\<forall>x \<in> set (snd (waitForIbmSmArbitrarySecretCreate env d)). is_poll_call (fst x)"
  by (auto simp: waitForIbmSmArbitrarySecretCreate_def Let_def split: prod.splits)

lemma Create_trace_cases:
  obtains
    (none) "snd (snd (resourceIbmSmArbitrarySecretCreate env d)) = []"
  | (failed) p resp e where
      "snd (snd (resourceIbmSmArbitrarySecretCreate env d))
         = [(CreateSecretWithContextCall p, resp, Some e)]"
      "fst (resourceIbmSmArbitrarySecretCreate env d)
         = Returned [Errorf (''CreateSecretWithContext failed %s'' @ LF @ ''%s'')
                       [AErr (Some e), AResp resp]]"
  | (polled) p resp polls where
      "snd (snd (resourceIbmSmArbitrarySecretCreate env d))
         = (CreateSecretWithContextCall p, resp, None) # polls"
      "\<forall>x \<in> set polls. is_poll_call (fst x)"
  | (read) p resp polls d2 where
      "snd (snd (resourceIbmSmArbitrarySecretCreate env d))
         = (CreateSecretWithContextCall p, resp, None) # polls
           @ snd (snd (resourceIbmSmArbitrarySecretRead env d2))"
      "\<forall>x \<in> set polls. is_poll_call (fst x)"
      "fst (resourceIbmSmArbitrarySecretCreate env d)
         = fst (resourceIbmSmArbitrarySecretRead env d2)"
proof (cases "SecretsManagerV2 env")
  case (Some err)
  then have "snd (snd (resourceIbmSmArbitrarySecretCreate env d)) = []"
    by (simp add: resourceIbmSmArbitrarySecretCreate_def)
  then show ?thesis by (rule none)
next
  case None
  show ?thesis
  proof (cases "resourceIbmSmArbitrarySecretMapToArbitrarySecretPrototype (time_Parse env) d")
    case (Inl err)
    then have "snd (snd (resourceIbmSmArbitrarySecretCreate env d)) = []"
      using None by (simp add: resourceIbmSmArbitrarySecretCreate_def)
    then show ?thesis by (rule none)
  next
    case (Inr p)
    obtain intf resp err where c: "CreateSecretWithContext env p = (intf, resp, err)"
      by (cases "CreateSecretWithContext env p") auto
    show ?thesis
    proof (cases err)
      case (Some e)
      have "snd (snd (resourceIbmSmArbitrarySecretCreate env d))
         = [(CreateSecretWithContextCall p, resp, Some e)]"
        "fst (resourceIbmSmArbitrarySecretCreate env d)
         = Returned [Errorf (''CreateSecretWithContext failed %s'' @ LF @ ''%s'')
                       [AErr (Some e), AResp resp]]"
        using None Inr c Some by (simp_all add: resourceIbmSmArbitrarySecretCreate_def)
      then show ?thesis by (rule failed)
    next
      case noerr: None
      show ?thesis
      proof (cases "\<exists>secret sid. intf = ArbitrarySecretPtr secret \<and> sec_ID secret = Some sid")
        case False
        then have "snd (snd (resourceIbmSmArbitrarySecretCreate env d))
            = (CreateSecretWithContextCall p, resp, None) # []"
          using None Inr c noerr
          by (cases intf) (auto simp: resourceIbmSmArbitrarySecretCreate_def Let_def)
        then show ?thesis by (rule polled) simp
      next
        case True
        then obtain secret sid where i: "intf = ArbitrarySecretPtr secret" "sec_ID secret = Some sid"
          by blast
        let ?d2 = "snd (run_sets env [Unchecked ''secret_id'' (\<lambda>d. d\<lparr>secret_id := sid\<rparr>)]
                     (d\<lparr>Id_d := getRegion env d @ ''/'' @ instance_id d @ ''/'' @ sid\<rparr>))"
        obtain w tr2 where w: "waitForIbmSmArbitrarySecretCreate env ?d2 = (w, tr2)"
          by (cases "waitForIbmSmArbitrarySecretCreate env ?d2") auto
        have polls: "\<forall>x \<in> set tr2. is_poll_call (fst x)"
          using wait_trace_polls[of env ?d2] w by simp
        show ?thesis
        proof (cases "w = WaitPanic \<or> (\<exists>res werr. w = WaitRet res (Some werr))")
          case True
          then have "snd (snd (resourceIbmSmArbitrarySecretCreate env d))
              = (CreateSecretWithContextCall p, resp, None) # tr2"
            using None Inr c noerr i w
            by (auto simp: resourceIbmSmArbitrarySecretCreate_def Let_def simp del: run_sets.simps)
          then show ?thesis using polls by (rule polled)
        next
          case False
          then obtain res where r: "w = WaitRet res None"
            by (cases w) auto
          have "snd (snd (resourceIbmSmArbitrarySecretCreate env d))
              = (CreateSecretWithContextCall p, resp, None) # tr2
                @ snd (snd (resourceIbmSmArbitrarySecretRead env ?d2))"
            "fst (resourceIbmSmArbitrarySecretCreate env d)
              = fst (resourceIbmSmArbitrarySecretRead env ?d2)"
            using None Inr c noerr i w r
            by (simp_all add: resourceIbmSmArbitrarySecretCreate_def Let_def case_prod_unfold
                del: run_sets.simps)
          then show ?thesis using polls by (intro read[of p resp tr2 ?d2]) simp_all
        qed
      qed
    qed
  qed
qed

lemma wraps_prefix_read:
  assumes tr: "snd (snd r) = pre @ snd (snd (resourceIbmSmArbitrarySecretRead env d2))"
    and out: "fst r = fst (resourceIbmSmArbitrarySecretRead env d2)"
    and pre: "\<forall>x \<in> set pre. snd (snd x) = None \<or> is_poll_call (fst x)"
  shows "wraps_failed_calls r"
  using Read_shape[of env d2] tr out pre
  by (auto simp: wraps_failed_calls_def)

lemma first_failure_prefix_read:
  assumes tr: "snd (snd r) = pre @ snd (snd (resourceIbmSmArbitrarySecretRead env d2))"
    and out: "fst r = fst (resourceIbmSmArbitrarySecretRead env d2)"
    and pre: "\<forall>x \<in> set pre. snd (snd x) = None \<or> is_poll_call (fst x)"
  shows "returns_at_first_failure r"
  unfolding returns_at_first_failure_def
proof (intro allI impI)
  fix pre' x post
  assume a: "snd (snd r) = pre' @ x # post \<and> snd (snd x) \<noteq> None \<and> \<not> is_poll_call (fst x)"
  then have xin: "x \<in> set (snd (snd r))" by simp
  have xnot: "x \<notin> set pre" using a pre by auto
  from Read_shape[of env d2] show "post = [] \<and> (\<exists>diags. fst r = Returned diags \<and> (diags = [] \<longleftrightarrow> gone_404 x))"
  proof
    assume "snd (snd (resourceIbmSmArbitrarySecretRead env d2)) = []"
    then show ?thesis using tr xin xnot by simp
  next
    assume "\<exists>s resp err.
         snd (snd (resourceIbmSmArbitrarySecretRead env d2)) = [(GetSecretWithContextCall s, resp, err)]
         \<and> (err \<noteq> None \<longrightarrow>
               fst (resourceIbmSmArbitrarySecretRead env d2)
                 = (if is_404 resp then Returned []
                    else Returned [Errorf (''GetSecretWithContext failed %s'' @ LF @ ''%s'')
                                     [AErr err, AResp resp]]))"
    then obtain s resp err where
      rd: "snd (snd (resourceIbmSmArbitrarySecretRead env d2)) = [(GetSecretWithContextCall s, resp, err)]"
      and o: "err \<noteq> None \<longrightarrow>
               fst (resourceIbmSmArbitrarySecretRead env d2)
                 = (if is_404 resp then Returned []
                    else Returned [Errorf (''GetSecretWithContext failed %s'' @ LF @ ''%s'')
                                     [AErr err, AResp resp]])"
      by blast
    have eq: "pre @ [(GetSecretWithContextCall s, resp, err)] = pre' @ x # post"
      using tr rd a by simp
    have x: "x = (GetSecretWithContextCall s, resp, err)"
      using xin xnot tr rd by auto
    have "post = []"
    proof (rule ccontr)
      assume "post \<noteq> []"
      then obtain ys y where p: "post = ys @ [y]" by (metis rev_exhaust)
      with eq have "pre = pre' @ x # ys" by (metis append.assoc append_Cons butlast_snoc)
      then show False using xnot by simp
    qed
    moreover have "\<exists>diags. fst r = Returned diags \<and> (diags = [] \<longleftrightarrow> gone_404 x)"
      using a x o out by (cases err) auto
    ultimately show ?thesis by simp
  qed
qed

lemma Read_wraps: "wraps_failed_calls (resourceIbmSmArbitrarySecretRead env d)"
  by (rule wraps_prefix_read[of _ "[]" env d]) simp_all

lemma Read_first_failure: "returns_at_first_failure (resourceIbmSmArbitrarySecretRead env d)"
  by (rule first_failure_prefix_read[of _ "[]" env d]) simp_all

lemma single_failed_call:
  assumes "snd (snd r) = [x]" and "fst r = Returned [e]" and "\<not> gone_404 x"
    and "e = Errorf (call_name (fst x) @ '' failed %s'' @ LF @ ''%s'')
                 [AErr (snd (snd x)), AResp (fst (snd x))]"
  shows "wraps_failed_calls r" and "returns_at_first_failure r"
  using assms
  by (auto simp: wraps_failed_calls_def returns_at_first_failure_def Cons_eq_append_conv)

lemma no_failure_in_trace:
  assumes "\<forall>x \<in> set (snd (snd r)). snd (snd x) = None \<or> is_poll_call (fst x)"
  shows "wraps_failed_calls r" and "returns_at_first_failure r"
  using assms
  by (auto simp: wraps_failed_calls_def returns_at_first_failure_def)

lemma Create_wraps_and_returns:
  "wraps_failed_calls (resourceIbmSmArbitrarySecretCreate env d)
   \<and> returns_at_first_failure (resourceIbmSmArbitrarySecretCreate env d)"
proof (cases rule: Create_trace_cases[of env d])
  case none
  then show ?thesis using no_failure_in_trace[of "resourceIbmSmArbitrarySecretCreate env d"] by simp
next
  case (failed p resp e)
  then show ?thesis
    using single_failed_call[of "resourceIbmSmArbitrarySecretCreate env d"
        "(CreateSecretWithContextCall p, resp, Some e)"] by simp
next
  case (polled p resp polls)
  then show ?thesis using no_failure_in_trace[of "resourceIbmSmArbitrarySecretCreate env d"] by simp
next
  case (read p resp polls d2)
  have pre: "\<forall>x \<in> set ((CreateSecretWithContextCall p, resp, None) # polls).
               snd (snd x) = None \<or> is_poll_call (fst x)"
    using read(2) by simp
  show ?thesis
    using wraps_prefix_read[of "resourceIbmSmArbitrarySecretCreate env d"
        "(CreateSecretWithContextCall p, resp, None) # polls" env d2]
      first_failure_prefix_read[of "resourceIbmSmArbitrarySecretCreate env d"
        "(CreateSecretWithContextCall p, resp, None) # polls" env d2]
      read(1) read(3) pre by simp
qed

lemma Update_wraps_and_returns:
  "wraps_failed_calls (resourceIbmSmArbitrarySecretUpdate env d)
   \<and> returns_at_first_failure (resourceIbmSmArbitrarySecretUpdate env d)"
proof (cases "SecretsManagerV2 env = None \<and> 3 \<le> length (Split (Id_d d) (CHR ''/''))")
  case False
  then have "snd (snd (resourceIbmSmArbitrarySecretUpdate env d)) = []"
    by (auto simp: resourceIbmSmArbitrarySecretUpdate_def Let_def split: option.splits)
  then show ?thesis using no_failure_in_trace[of "resourceIbmSmArbitrarySecretUpdate env d"] by simp
next
  case True
  let ?sid = "Split (Id_d d) (CHR ''/'') ! 2"
  show ?thesis
  proof (cases "hasChange d")
    case False
    then have "resourceIbmSmArbitrarySecretUpdate env d = resourceIbmSmArbitrarySecretRead env d"
      using True by (simp add: resourceIbmSmArbitrarySecretUpdate_def Let_def)
    then show ?thesis using Read_wraps[of env d] Read_first_failure[of env d] by simp
  next
    case ch: True
    obtain res resp err where u: "UpdateSecretMetadataWithContext env ?sid (patchVals d) = (res, resp, err)"
      by (cases "UpdateSecretMetadataWithContext env ?sid (patchVals d)") auto
    show ?thesis
    proof (cases err)
      case (Some e)
      have "snd (snd (resourceIbmSmArbitrarySecretUpdate env d))
           = [(UpdateSecretMetadataWithContextCall ?sid (patchVals d), resp, Some e)]"
        "fst (resourceIbmSmArbitrarySecretUpdate env d)
           = Returned [Errorf (''UpdateSecretMetadataWithContext failed %s'' @ LF @ ''%s'')
                         [AErr (Some e), AResp resp]]"
        using True ch u Some by (simp_all add: resourceIbmSmArbitrarySecretUpdate_def Let_def)
      then show ?thesis
        using single_failed_call[of "resourceIbmSmArbitrarySecretUpdate env d"
            "(UpdateSecretMetadataWithContextCall ?sid (patchVals d), resp, Some e)"] by simp
    next
      case None
      have "snd (snd (resourceIbmSmArbitrarySecretUpdate env d))
           = [(UpdateSecretMetadataWithContextCall ?sid (patchVals d), resp, None)]
             @ snd (snd (resourceIbmSmArbitrarySecretRead env d))"
        "fst (resourceIbmSmArbitrarySecretUpdate env d) = fst (resourceIbmSmArbitrarySecretRead env d)"
        using True ch u None
        by (simp_all add: resourceIbmSmArbitrarySecretUpdate_def Let_def case_prod_unfold)
      then show ?thesis
        using wraps_prefix_read[of "resourceIbmSmArbitrarySecretUpdate env d"
            "[(UpdateSecretMetadataWithContextCall ?sid (patchVals d), resp, None)]" env d]
          first_failure_prefix_read[of "resourceIbmSmArbitrarySecretUpdate env d"
            "[(UpdateSecretMetadataWithContextCall ?sid (patchVals d), resp, None)]" env d]
        by simp
    qed
  qed
qed

lemma Delete_wraps_and_returns:
  "wraps_failed_calls (resourceIbmSmArbitrarySecretDelete env d)
   \<and> returns_at_first_failure (resourceIbmSmArbitrarySecretDelete env d)"
proof (cases "SecretsManagerV2 env = None \<and> 3 \<le> length (Split (Id_d d) (CHR ''/''))")
  case False
  then have "snd (snd (resourceIbmSmArbitrarySecretDelete env d)) = []"
    by (auto simp: resourceIbmSmArbitrarySecretDelete_def Let_def split: option.splits)
  then show ?thesis using no_failure_in_trace[of "resourceIbmSmArbitrarySecretDelete env d"] by simp
next
  case True
  let ?sid = "Split (Id_d d) (CHR ''/'') ! 2"
  obtain resp err where u: "DeleteSecretWithContext env ?sid = (resp, err)"
    by (cases "DeleteSecretWithContext env ?sid") auto
  show ?thesis
  proof (cases err)
    case (Some e)
    have "snd (snd (resourceIbmSmArbitrarySecretDelete env d))
           = [(DeleteSecretWithContextCall ?sid, resp, Some e)]"
        "fst (resourceIbmSmArbitrarySecretDelete env d)
           = Returned [Errorf (''DeleteSecretWithContext failed %s'' @ LF @ ''%s'')
                         [AErr (Some e), AResp resp]]"
      using True u Some by (simp_all add: resourceIbmSmArbitrarySecretDelete_def Let_def)
    then show ?thesis
      using single_failed_call[of "resourceIbmSmArbitrarySecretDelete env d"
            "(DeleteSecretWithContextCall ?sid, resp, Some e)"] by simp
  next
    case None
    have "snd (snd (resourceIbmSmArbitrarySecretDelete env d))
           = [(DeleteSecretWithContextCall ?sid, resp, None)]"
      using True u None by (simp add: resourceIbmSmArbitrarySecretDelete_def Let_def)
    then show ?thesis
      using no_failure_in_trace[of "resourceIbmSmArbitrarySecretDelete env d"] by simp
  qed
qed

lemma ds_run_sets_frame:
  "k \<notin> fst ` set ss \<Longrightarrow> ds_attrs (snd (ds_run_sets env ss d)) k = ds_attrs d k"
  by (induction ss arbitrary: d) (auto split: option.splits)

lemma ds_run_sets_ok:
  "\<forall>k. ds_Set_error env k = None \<Longrightarrow> fst (ds_run_sets env ss d) = None"
  by (induction ss arbitrary: d) auto

lemma ds_sets_before_rotation_keys:
  "fst ` set (ds_sets_before_rotation env r s) \<subseteq>
     {''region'', ''created_by'', ''created_at'', ''crn'', ''custom_metadata'', ''description'',
      ''downloaded'', ''labels'', ''locks_total'', ''name'', ''secret_group_id'', ''secret_type'',
      ''state'', ''state_description'', ''updated_at'', ''versions_total'', ''ttl''}"
  unfolding ds_sets_before_rotation_def
  by (cases "scs_CustomMetadata s"; cases "scs_Labels s") simp_all

lemma ds_before_rotation_frame:
  assumes "k = ''credentials'' \<or> k = ''source_service''"
  shows "ds_attrs (snd (ds_run_sets env (ds_sets_before_rotation env r s) d)) k = ds_attrs d k"
proof -
  have "k \<notin> fst ` set (ds_sets_before_rotation env r s)"
    using ds_sets_before_rotation_keys[of env r s] assms by auto
  then show ?thesis by (rule ds_run_sets_frame)
qed

lemma ds_read_ok:
  assumes "getSecretByIdOrByName env d = (ServiceCredentialsSecretPtr s, r, inst, [])"
    and "scs_ID s = Some sid" and "scs_Rotation s = NilRotation"
    and "\<forall>k. ds_Set_error env k = None"
  shows "dataSourceIbmSmServiceCredentialsSecretRead env d =
     (Returned [],
      snd (ds_run_sets env
             [(''rotation'', VList [], ''Error setting rotation %s''),
              (''next_rotation_date'', VString (DateTimeToRFC3339 env (scs_NextRotationDate s)),
               ''Error setting next_rotation_date: %s'')]
             (snd (ds_run_sets env (ds_sets_before_rotation env r s)
                     (d\<lparr>ds_Id := r @ ''/'' @ inst @ ''/'' @ sid\<rparr>)))))"
  unfolding dataSourceIbmSmServiceCredentialsSecretRead_def
  using assms(1-3) ds_run_sets_ok[OF assms(4)]
  by (simp add: Let_def case_prod_unfold del: ds_run_sets.simps)

lemma poll_count:
  "snd (poll conf refresh n k l) \<le> k + n
   \<and> (0 < n \<longrightarrow> k < snd (poll conf refresh n k l))"
proof (induction n arbitrary: k l)
  case 0
  then show ?case by simp
next
  case (Suc n)
  show ?case
  proof (cases "pending_at conf (refresh k)")
    case True
    then obtain res st where r: "refresh k = RefreshRet res st None"
      "st \<notin> set (Target conf)" "st \<in> set (Pending conf)"
      by (auto simp: pending_at_def split: refresh_result.splits option.splits)
    have "poll conf refresh (Suc n) k l = poll conf refresh n (Suc k) st" using r by simp
    moreover have "snd (poll conf refresh n (Suc k) st) \<le> Suc k + n" using Suc.IH by blast
    moreover have "Suc k \<le> snd (poll conf refresh n (Suc k) st)"
    proof (cases n)
      case 0
      then show ?thesis by simp
    next
      case (Suc m)
      then show ?thesis using Suc.IH[of "Suc k" st] by simp
    qed
    ultimately show ?thesis by simp
  next
    case False
    then have "snd (poll conf refresh (Suc n) k l) = Suc k"
      by (auto simp: pending_at_def split: refresh_result.splits option.splits)
    then show ?thesis by simp
  qed
qed

lemma poll_target_at:
  assumes "k < n" and "\<forall>j<k. pending_at conf (refresh j)" and "target_at conf (refresh k)"
  shows "snd (poll conf refresh n 0 l) = Suc k"
proof -
  from assms(1) obtain m where m: "n - k = Suc m" by (cases "n - k") auto
  from poll_skip_pending[of k n conf refresh 0 l] assms obtain l' where
    "poll conf refresh n 0 l = poll conf refresh (n - k) k l'" by auto
  then show ?thesis using m poll_target[of conf refresh k m l'] assms(3) by auto
qed

section \<open>Verified properties\<close>

text \<open>
  C1, as amended. After a successful \<open>CreateSecret\<close> the identifier has three parts,
  and \<open>waitForIbmSmArbitrarySecretCreate\<close> polls with the configuration of the source:
  pending \<open>pre_activation\<close>, target \<open>active\<close>, delay \<open>0\<close>, a minimum interval of
  five seconds and the create timeout of the caller. The calls of the wait are
  \<open>GetSecret\<close> calls of the secret, one for each poll made, and at least one when the
  timeout allows one. The wait succeeds exactly when, within the refreshes the timeout
  allows, a poll reads \<open>active\<close> after polls that all read \<open>pre_activation\<close>, and that
  poll is then its last call. When every poll within the timeout reads
  \<open>pre_activation\<close>, the wait has made all of them and ends with a timeout error.
\<close>

theorem C1_creation_poll:
  assumes "3 \<le> length (Split (Id_d d) (CHR ''/''))"
  shows "stateConf d =
           \<lparr>Pending = [''pre_activation''], Target = [''active''],
            Timeout = TimeoutCreate d, Delay = 0, MinTimeout = 5\<rparr>
       \<and> (let secretId = Split (Id_d d) (CHR ''/'') ! 2;
              n = refreshes_within env (Timeout (stateConf d));
              calls = (\<lambda>m. map (\<lambda>k. (GetSecretCall secretId, snd (GetSecret env k secretId)))
                              [0..<m])
          in
            (\<exists>m\<le>n. (0 < n \<longrightarrow> 0 < m)
                \<and> snd (waitForIbmSmArbitrarySecretCreate env d) = calls m)
          \<and> ((\<exists>res. fst (waitForIbmSmArbitrarySecretCreate env d) = WaitRet res None) \<longleftrightarrow>
               (\<exists>k<n. polled_state env secretId k = Some ''active''
                   \<and> (\<forall>j<k. polled_state env secretId j = Some ''pre_activation'')))
          \<and> (\<forall>k<n. polled_state env secretId k = Some ''active''
                   \<and> (\<forall>j<k. polled_state env secretId j = Some ''pre_activation'') \<longrightarrow>
                 snd (waitForIbmSmArbitrarySecretCreate env d) = calls (Suc k))
          \<and> ((\<forall>k<n. polled_state env secretId k = Some ''pre_activation'') \<longrightarrow>
               (\<exists>lastState. waitForIbmSmArbitrarySecretCreate env d
                    = (WaitRet None (Some (TimeoutError lastState [''active''])), calls n))))"
proof -
  let ?s = "Split (Id_d d) (CHR ''/'') ! 2"
  let ?n = "refreshes_within env (TimeoutCreate d)"
  let ?refresh = "\<lambda>k. Refresh (GetSecret env k ?s)"
  let ?p = "poll (stateConf d) ?refresh ?n 0 []"
  let ?calls = "\<lambda>m. map (\<lambda>k. (GetSecretCall ?s, snd (GetSecret env k ?s))) [0..<m]"
  have w: "waitForIbmSmArbitrarySecretCreate env d = (fst ?p, ?calls (snd ?p))"
    using wait_unfold[OF assms, of env] by (simp add: case_prod_unfold)
  have tmo: "Timeout (stateConf d) = TimeoutCreate d" by (simp add: stateConf_def)
  have c0: "\<exists>m\<le>?n. (0 < ?n \<longrightarrow> 0 < m)
                \<and> snd (waitForIbmSmArbitrarySecretCreate env d) = ?calls m"
    using poll_count[of "stateConf d" ?refresh ?n 0 "[]"]
    by (intro exI[of _ "snd ?p"]) (auto simp: w)
  have c2: "(\<exists>res. fst (waitForIbmSmArbitrarySecretCreate env d) = WaitRet res None) \<longleftrightarrow>
        (\<exists>k<?n. polled_state env ?s k = Some ''active''
            \<and> (\<forall>j<k. polled_state env ?s j = Some ''pre_activation''))"
    using poll_done_iff[of "stateConf d" ?refresh ?n "[]"]
    by (simp add: w Refresh_pending_iff Refresh_target_iff)
  have c2': "\<forall>k<?n. polled_state env ?s k = Some ''active''
                   \<and> (\<forall>j<k. polled_state env ?s j = Some ''pre_activation'') \<longrightarrow>
                 snd (waitForIbmSmArbitrarySecretCreate env d) = ?calls (Suc k)"
  proof (intro allI impI)
    fix k
    assume k: "k < ?n"
      and a: "polled_state env ?s k = Some ''active''
                   \<and> (\<forall>j<k. polled_state env ?s j = Some ''pre_activation'')"
    have "\<forall>j<k. pending_at (stateConf d) (?refresh j)"
      using a by (simp add: Refresh_pending_iff)
    moreover have "target_at (stateConf d) (?refresh k)"
      using a by (simp add: Refresh_target_iff)
    ultimately have "snd ?p = Suc k"
      using poll_target_at[of k ?n "stateConf d" ?refresh "[]"] k by blast
    then show "snd (waitForIbmSmArbitrarySecretCreate env d) = ?calls (Suc k)"
      by (simp add: w)
  qed
  have c3: "(\<forall>k<?n. polled_state env ?s k = Some ''pre_activation'') \<longrightarrow>
        (\<exists>lastState. waitForIbmSmArbitrarySecretCreate env d
             = (WaitRet None (Some (TimeoutError lastState [''active''])), ?calls ?n))"
  proof
    assume "\<forall>k<?n. polled_state env ?s k = Some ''pre_activation''"
    then have "\<forall>j<?n. pending_at (stateConf d) (?refresh j)"
      by (simp add: Refresh_pending_iff)
    from poll_timeout[OF this, of "[]"] obtain l' where
      "?p = (WaitRet None (Some (TimeoutError l' (Target (stateConf d)))), ?n)" by blast
    then show "\<exists>lastState. waitForIbmSmArbitrarySecretCreate env d
             = (WaitRet None (Some (TimeoutError lastState [''active''])), ?calls ?n)"
      by (auto simp: w stateConf_def)
  qed
  have c: "stateConf d =
           \<lparr>Pending = [''pre_activation''], Target = [''active''],
            Timeout = TimeoutCreate d, Delay = 0, MinTimeout = 5\<rparr>"
    by (simp add: stateConf_def)
  show ?thesis
    unfolding Let_def tmo using c c0 c2 c2' c3 by blast
qed


theorem C1_creation_poll_witness:
  "3 \<le> length (Split (Id_d d0) (CHR ''/''))
   \<and> (\<exists>res. fst (waitForIbmSmArbitrarySecretCreate env0 d0) = WaitRet res None)
   \<and> snd (waitForIbmSmArbitrarySecretCreate env0 d0)
       = map (\<lambda>k. (GetSecretCall ''abc'', snd (GetSecret env0 k ''abc''))) [0..<Suc 2]
   \<and> (\<exists>lastState.
        waitForIbmSmArbitrarySecretCreate
          (env0\<lparr>GetSecret := \<lambda>k i. (ArbitrarySecretPtr
               (secret0\<lparr>sec_StateDescription := Some ''pre_activation''\<rparr>), None, None)\<rparr>)
          (d0\<lparr>TimeoutCreate := 15\<rparr>)
        = (WaitRet None (Some (TimeoutError lastState [''active''])),
           map (\<lambda>k. (GetSecretCall ''abc'',
                      snd (GetSecret
                             (env0\<lparr>GetSecret := \<lambda>k i. (ArbitrarySecretPtr
                                  (secret0\<lparr>sec_StateDescription := Some ''pre_activation''\<rparr>),
                                  None, None)\<rparr>) k ''abc''))) [0..<3]))"
proof -
  let ?env1 = "env0\<lparr>GetSecret := \<lambda>k i. (ArbitrarySecretPtr
                    (secret0\<lparr>sec_StateDescription := Some ''pre_activation''\<rparr>), None, None)\<rparr>"
  let ?d1 = "d0\<lparr>TimeoutCreate := 15\<rparr>"
  have h: "3 \<le> length (Split (Id_d d0) (CHR ''/''))" by (simp add: d0_def)
  have h1: "3 \<le> length (Split (Id_d ?d1) (CHR ''/''))" by (simp add: d0_def)
  have s: "Split (Id_d d0) (CHR ''/'') ! 2 = ''abc''" by (simp add: d0_def)
  have s1: "Split (Id_d ?d1) (CHR ''/'') ! 2 = ''abc''" by (simp add: d0_def)
  have n: "refreshes_within env0 (Timeout (stateConf d0)) = 240"
    by (simp add: env0_def stateConf_def d0_def)
  have n1: "refreshes_within ?env1 (Timeout (stateConf ?d1)) = 3"
    by (simp add: env0_def stateConf_def)
  have act: "polled_state env0 ''abc'' 2 = Some ''active''
          \<and> (\<forall>j<2. polled_state env0 ''abc'' j = Some ''pre_activation'')"
    by (simp add: polled_state_def env0_def secret0_def)
  have k: "(2::nat) < 240" by simp
  note t = C1_creation_poll[OF h, of env0, unfolded Let_def s n]
  have a: "\<exists>res. fst (waitForIbmSmArbitrarySecretCreate env0 d0) = WaitRet res None"
    using t act k by blast
  have b: "snd (waitForIbmSmArbitrarySecretCreate env0 d0)
       = map (\<lambda>k. (GetSecretCall ''abc'', snd (GetSecret env0 k ''abc''))) [0..<Suc 2]"
    using t act k by blast
  have pend: "\<forall>k<3. polled_state ?env1 ''abc'' k = Some ''pre_activation''"
    by (simp add: polled_state_def env0_def secret0_def)
  note t1 = C1_creation_poll[OF h1, of ?env1, unfolded Let_def s1 n1]
  have c: "\<exists>lastState. waitForIbmSmArbitrarySecretCreate ?env1 ?d1
        = (WaitRet None (Some (TimeoutError lastState [''active''])),
           map (\<lambda>k. (GetSecretCall ''abc'', snd (GetSecret ?env1 k ''abc''))) [0..<3])"
    using t1 pend by blast
  show ?thesis using h a b c by blast
qed

text \<open>
  The claim as stated fails when the first poll reads \<open>destroyed\<close>: the target is
  never reached, the wait ends after this one call, and the error it returns is the
  failure error of the refresh function, not a timeout error.
\<close>

theorem C1_destroyed_read_counterexample:
  "polled_state
     (env0\<lparr>GetSecret := \<lambda>k i. (ArbitrarySecretPtr
          (secret0\<lparr>sec_StateDescription := Some ''destroyed''\<rparr>),
          Some \<lparr>StatusCode = 200\<rparr>, None)\<rparr>) ''abc'' 0 = Some ''destroyed''
   \<and> waitForIbmSmArbitrarySecretCreate
       (env0\<lparr>GetSecret := \<lambda>k i. (ArbitrarySecretPtr
            (secret0\<lparr>sec_StateDescription := Some ''destroyed''\<rparr>),
            Some \<lparr>StatusCode = 200\<rparr>, None)\<rparr>) d0
     = (WaitRet (Some (secret0\<lparr>sec_StateDescription := Some ''destroyed''\<rparr>))
          (Some (Errorf (''The instance %s failed: %s'' @ LF @ ''%s'')
                   [AStr ''getSecretOptions'', AErr None, AResp (Some \<lparr>StatusCode = 200\<rparr>)])),
        [(GetSecretCall ''abc'', Some \<lparr>StatusCode = 200\<rparr>, None)])"
proof -
  let ?env = "env0\<lparr>GetSecret := \<lambda>k i. (ArbitrarySecretPtr
          (secret0\<lparr>sec_StateDescription := Some ''destroyed''\<rparr>),
          Some \<lparr>StatusCode = 200\<rparr>, None)\<rparr>"
  let ?obj = "secret0\<lparr>sec_StateDescription := Some ''destroyed''\<rparr>"
  have len: "3 \<le> length (Split (Id_d d0) (CHR ''/''))" by (simp add: d0_def)
  have sid: "''abc'' = Split (Id_d d0) (CHR ''/'') ! 2" by (simp add: d0_def)
  have k: "0 < refreshes_within ?env (TimeoutCreate d0)" by (simp add: env0_def d0_def)
  have pend: "\<forall>j<0. polled_state ?env ''abc'' j = Some ''pre_activation''" by simp
  have get: "GetSecret ?env 0 ''abc'' = (ArbitrarySecretPtr ?obj, Some \<lparr>StatusCode = 200\<rparr>, None)"
    by simp
  have st: "sec_StateDescription ?obj = Some ''destroyed''" by simp
  have p: "polled_state ?env ''abc'' 0 = Some ''destroyed''"
    by (simp add: polled_state_def)
  show ?thesis
    using wait_fail_state[OF len sid k pend get st] p by simp
qed

text \<open>
  C2. The fail states are exactly \<open>destroyed\<close>. When a poll within the timeout reads
  \<open>destroyed\<close> after polls that read \<open>pre_activation\<close>, the refresh returns an error,
  the wait ends with that error, \<open>resourceIbmSmArbitrarySecretCreate\<close> returns the
  diagnostic that wraps it, and the operation has issued no call after that poll.
\<close>

theorem C2_fail_state_ends_creation:
  assumes "SecretsManagerV2 env = None"
    and "resourceIbmSmArbitrarySecretMapToArbitrarySecretPrototype (time_Parse env) d = Inr proto"
    and "CreateSecretWithContext env proto = (ArbitrarySecretPtr secret, response, None)"
    and "sec_ID secret = Some sid"
    and "ident = getRegion env d @ ''/'' @ instance_id d @ ''/'' @ sid"
    and "secretId = Split ident (CHR ''/'') ! 2"
    and "k < refreshes_within env (TimeoutCreate d)"
    and "\<forall>j<k. polled_state env secretId j = Some ''pre_activation''"
    and "GetSecret env k secretId = (ArbitrarySecretPtr obj, resp, None)"
    and "sec_StateDescription obj = Some ''destroyed''"
    and "failErr = Errorf (''The instance %s failed: %s'' @ LF @ ''%s'')
                     [AStr ''getSecretOptions'', AErr None, AResp resp]"
  shows "(\<forall>s. index_bool failStates s \<longleftrightarrow> s = ''destroyed'')
       \<and> Refresh (GetSecret env k secretId) = RefreshRet (Some obj) ''destroyed'' (Some failErr)
       \<and> fst (waitForIbmSmArbitrarySecretCreate env (d\<lparr>Id_d := ident\<rparr>))
           = WaitRet (Some obj) (Some failErr)
       \<and> fst (resourceIbmSmArbitrarySecretCreate env d)
           = Returned [Errorf ''Error waiting for resource IbmSmArbitrarySecret (%s) to be created: %s''
                         [AStr ident, AErr (Some failErr)]]
       \<and> snd (snd (resourceIbmSmArbitrarySecretCreate env d))
           = (CreateSecretWithContextCall proto, response, None)
             # map (\<lambda>j. (GetSecretCall secretId, snd (GetSecret env j secretId))) [0..<Suc k]"
proof -
  let ?d1 = "d\<lparr>Id_d := ident\<rparr>"
  let ?d2 = "snd (run_sets env [Unchecked ''secret_id'' (\<lambda>d. d\<lparr>secret_id := sid\<rparr>)] ?d1)"
  let ?tr = "map (\<lambda>j. (GetSecretCall secretId, snd (GetSecret env j secretId))) [0..<Suc k]"
  have len: "3 \<le> length (Split (Id_d ?d1) (CHR ''/''))"
    using Split_ident_length[of "getRegion env d" "instance_id d" sid] assms(5) by simp
  have w1: "waitForIbmSmArbitrarySecretCreate env ?d1 = (WaitRet (Some obj) (Some failErr), ?tr)"
    using wait_fail_state[OF len, of secretId k env obj resp] assms by simp
  have w2: "waitForIbmSmArbitrarySecretCreate env ?d2 = (WaitRet (Some obj) (Some failErr), ?tr)"
    using wait_cong[of ?d2 ?d1 env] set_secret_id_frame[of env sid ?d1] w1 by simp
  have id2: "Id_d ?d2 = ident" using set_secret_id_frame(1)[of env sid ?d1] by simp
  have a: "\<forall>s. index_bool failStates s \<longleftrightarrow> s = ''destroyed''"
    by (simp add: index_bool_def failStates_def)
  have b: "Refresh (GetSecret env k secretId) = RefreshRet (Some obj) ''destroyed'' (Some failErr)"
    using Refresh_destroyed[OF assms(9) assms(10)] assms(11) by simp
  have c: "resourceIbmSmArbitrarySecretCreate env d =
      (Returned [Errorf ''Error waiting for resource IbmSmArbitrarySecret (%s) to be created: %s''
                         [AStr ident, AErr (Some failErr)]], ?d2,
       (CreateSecretWithContextCall proto, response, None) # ?tr)"
    unfolding resourceIbmSmArbitrarySecretCreate_def Let_def
    using assms(1-5) w2 id2 by (simp del: run_sets.simps upt_Suc)
  show ?thesis using a b c w1 by simp
qed

theorem C2_fail_state_ends_creation_witness:
  "fst (resourceIbmSmArbitrarySecretCreate
          (env0\<lparr>GetSecret := \<lambda>k i. (ArbitrarySecretPtr
               (secret0\<lparr>sec_StateDescription :=
                  Some (if k < 1 then ''pre_activation'' else ''destroyed'')\<rparr>),
               Some \<lparr>StatusCode = 200\<rparr>, None)\<rparr>) d0)
     = Returned [Errorf ''Error waiting for resource IbmSmArbitrarySecret (%s) to be created: %s''
                   [AStr ''us-south/inst-1/abc'',
                    AErr (Some (Errorf (''The instance %s failed: %s'' @ LF @ ''%s'')
                                  [AStr ''getSecretOptions'', AErr None,
                                   AResp (Some \<lparr>StatusCode = 200\<rparr>)]))]]"
proof -
  let ?env = "env0\<lparr>GetSecret := \<lambda>k i. (ArbitrarySecretPtr
               (secret0\<lparr>sec_StateDescription :=
                  Some (if k < 1 then ''pre_activation'' else ''destroyed'')\<rparr>),
               Some \<lparr>StatusCode = 200\<rparr>, None)\<rparr>"
  let ?proto = "prototype_tail d0 ((prototype_head d0)\<lparr>proto_ExpirationDate := Some (DateTime 1893456000)\<rparr>)"
  let ?secret = "secret0\<lparr>sec_StateDescription := Some ''pre_activation''\<rparr>"
  let ?obj = "secret0\<lparr>sec_StateDescription := Some ''destroyed''\<rparr>"
  let ?failErr = "Errorf (''The instance %s failed: %s'' @ LF @ ''%s'')
                    [AStr ''getSecretOptions'', AErr None, AResp (Some \<lparr>StatusCode = 200\<rparr>)]"
  have h1: "SecretsManagerV2 ?env = None" by (simp add: env0_def)
  have h2: "resourceIbmSmArbitrarySecretMapToArbitrarySecretPrototype (time_Parse ?env) d0 = Inr ?proto"
    by (simp add: resourceIbmSmArbitrarySecretMapToArbitrarySecretPrototype_def env0_def d0_def
        GetOk_def)
  have h3: "CreateSecretWithContext ?env ?proto = (ArbitrarySecretPtr ?secret, Some \<lparr>StatusCode = 201\<rparr>, None)"
    by (simp add: env0_def)
  have h4: "sec_ID ?secret = Some ''abc''" by (simp add: secret0_def)
  have h5: "''us-south/inst-1/abc'' = getRegion ?env d0 @ ''/'' @ instance_id d0 @ ''/'' @ ''abc''"
    by (simp add: env0_def d0_def)
  have h6: "''abc'' = Split ''us-south/inst-1/abc'' (CHR ''/'') ! 2" by simp
  have h7: "1 < refreshes_within ?env (TimeoutCreate d0)" by (simp add: env0_def d0_def)
  have h8: "\<forall>j<1. polled_state ?env ''abc'' j = Some ''pre_activation''"
    by (simp add: polled_state_def env0_def)
  have h9: "GetSecret ?env 1 ''abc'' = (ArbitrarySecretPtr ?obj, Some \<lparr>StatusCode = 200\<rparr>, None)"
    by (simp add: env0_def)
  have h10: "sec_StateDescription ?obj = Some ''destroyed''" by simp
  show ?thesis
    using C2_fail_state_ends_creation[OF h1 h2 h3 h4 h5 h6 h7 h8 h9 h10, of ?failErr] by simp
qed

text \<open>
  C3. When \<open>GetSecretWithContext\<close> fails in \<open>resourceIbmSmArbitrarySecretRead\<close> and
  the response has status 404, the read sets the identifier to the empty string and
  returns no diagnostic; on every other failure it leaves the resource data as it was
  and returns the diagnostic \<open>GetSecretWithContext failed\<close>.
\<close>

theorem C3_read_404_clears_id:
  assumes "SecretsManagerV2 env = None"
    and "length (Split (Id_d d) (CHR ''/'')) = 3"
    and "GetSecretWithContext env (Split (Id_d d) (CHR ''/'') ! 2) = (intf, response, Some e)"
  shows "((\<exists>r. response = Some r \<and> StatusCode r = 404) \<longrightarrow>
            fst (resourceIbmSmArbitrarySecretRead env d) = Returned []
          \<and> fst (snd (resourceIbmSmArbitrarySecretRead env d)) = d\<lparr>Id_d := []\<rparr>)
       \<and> (\<not> (\<exists>r. response = Some r \<and> StatusCode r = 404) \<longrightarrow>
            fst (resourceIbmSmArbitrarySecretRead env d)
              = Returned [Errorf (''GetSecretWithContext failed %s'' @ LF @ ''%s'')
                            [AErr (Some e), AResp response]]
          \<and> fst (snd (resourceIbmSmArbitrarySecretRead env d)) = d)"
  using assms
  by (auto simp: resourceIbmSmArbitrarySecretRead_def Let_def is_404_def split: option.splits)

theorem C3_read_404_clears_id_witness:
  "fst (resourceIbmSmArbitrarySecretRead (env0\<lparr>GetSecretWithContext := \<lambda>i. not_found\<rparr>) d0)
     = Returned []
   \<and> Id_d (fst (snd (resourceIbmSmArbitrarySecretRead
                       (env0\<lparr>GetSecretWithContext := \<lambda>i. not_found\<rparr>) d0))) = []
   \<and> fst (resourceIbmSmArbitrarySecretRead (env0\<lparr>GetSecretWithContext := \<lambda>i. unavailable\<rparr>) d0)
     = Returned [Errorf (''GetSecretWithContext failed %s'' @ LF @ ''%s'')
                   [AErr (Some (ClientError ''Service Unavailable'' (Some 503))),
                    AResp (Some \<lparr>StatusCode = 503\<rparr>)]]
   \<and> Id_d (fst (snd (resourceIbmSmArbitrarySecretRead
                       (env0\<lparr>GetSecretWithContext := \<lambda>i. unavailable\<rparr>) d0)))
     = ''us-south/inst-1/abc''"
proof -
  let ?e1 = "env0\<lparr>GetSecretWithContext := \<lambda>i. not_found\<rparr>"
  let ?e2 = "env0\<lparr>GetSecretWithContext := \<lambda>i. unavailable\<rparr>"
  have s1: "SecretsManagerV2 ?e1 = None" and s2: "SecretsManagerV2 ?e2 = None"
    by (simp_all add: env0_def)
  have l: "length (Split (Id_d d0) (CHR ''/'')) = 3" by (simp add: d0_def)
  have g1: "GetSecretWithContext ?e1 (Split (Id_d d0) (CHR ''/'') ! 2)
      = (NilIntf, Some \<lparr>StatusCode = 404\<rparr>, Some (ClientError ''Not Found'' (Some 404)))"
    by (simp add: not_found_def)
  have g2: "GetSecretWithContext ?e2 (Split (Id_d d0) (CHR ''/'') ! 2)
      = (NilIntf, Some \<lparr>StatusCode = 503\<rparr>, Some (ClientError ''Service Unavailable'' (Some 503)))"
    by (simp add: unavailable_def)
  show ?thesis
    using C3_read_404_clears_id[OF s1 l g1] C3_read_404_clears_id[OF s2 l g2]
    by (simp add: d0_def)
qed

text \<open>
  C4. The schema of the data source declares \<open>credentials\<close> and \<open>source_service\<close>
  as computed attributes, but \<open>dataSourceIbmSmServiceCredentialsSecretRead\<close> has no
  \<open>d.Set\<close> for either: on a response that carries both, the read succeeds and leaves
  both attributes unset.
\<close>

theorem C4_read_never_sets_credentials:
  "''credentials'' \<in> set (computed_attributes DataSourceIbmSmServiceCredentialsSecret)
   \<and> ''source_service'' \<in> set (computed_attributes DataSourceIbmSmServiceCredentialsSecret)
   \<and> scs_Credentials service_credentials0 = Some credentials0
   \<and> scs_SourceService service_credentials0 = Some source_service0
   \<and> fst (dataSourceIbmSmServiceCredentialsSecretRead ds_env0 ds_d0) = Returned []
   \<and> ds_attrs (snd (dataSourceIbmSmServiceCredentialsSecretRead ds_env0 ds_d0)) ''credentials''
       = None
   \<and> ds_attrs (snd (dataSourceIbmSmServiceCredentialsSecretRead ds_env0 ds_d0)) ''source_service''
       = None"
proof -
  let ?d1 = "ds_d0\<lparr>ds_Id := ''us-south'' @ ''/'' @ ''inst-1'' @ ''/'' @ ''abc''\<rparr>"
  let ?r1 = "ds_run_sets ds_env0 (ds_sets_before_rotation ds_env0 ''us-south'' service_credentials0) ?d1"
  let ?ss = "[(''rotation'', VList [], ''Error setting rotation %s''),
              (''next_rotation_date'',
               VString (DateTimeToRFC3339 ds_env0 (scs_NextRotationDate service_credentials0)),
               ''Error setting next_rotation_date: %s'')]"
  let ?r2 = "ds_run_sets ds_env0 ?ss (snd ?r1)"
  have a: "''credentials'' \<in> set (computed_attributes DataSourceIbmSmServiceCredentialsSecret)"
    "''source_service'' \<in> set (computed_attributes DataSourceIbmSmServiceCredentialsSecret)"
    by (simp_all add: computed_attributes_def DataSourceIbmSmServiceCredentialsSecret_def no_flags_def)
  have b: "scs_Credentials service_credentials0 = Some credentials0"
    "scs_SourceService service_credentials0 = Some source_service0"
    by (simp_all add: service_credentials0_def)
  have ok: "\<forall>k. ds_Set_error ds_env0 k = None" by (simp add: ds_env0_def)
  have g: "getSecretByIdOrByName ds_env0 ds_d0
      = (ServiceCredentialsSecretPtr service_credentials0, ''us-south'', ''inst-1'', [])"
    by (simp add: ds_env0_def)
  have i: "scs_ID service_credentials0 = Some ''abc''"
    and rot: "scs_Rotation service_credentials0 = NilRotation"
    by (simp_all add: service_credentials0_def)
  have c: "dataSourceIbmSmServiceCredentialsSecretRead ds_env0 ds_d0 = (Returned [], snd ?r2)"
    by (rule ds_read_ok[OF g i rot ok])
  have f: "ds_attrs (snd ?r2) k = ds_attrs ds_d0 k"
    if "k = ''credentials'' \<or> k = ''source_service''" for k
  proof -
    have "k \<notin> fst ` set ?ss" using that by auto
    then have "ds_attrs (snd ?r2) k = ds_attrs (snd ?r1) k" by (rule ds_run_sets_frame)
    also have "\<dots> = ds_attrs ?d1 k" using that by (rule ds_before_rotation_frame)
    finally show ?thesis by simp
  qed
  have e: "ds_attrs ds_d0 k = None" for k by (simp add: ds_d0_def)
  show ?thesis
    unfolding c fst_conv snd_conv
    using a b f[of "''credentials''"] f[of "''source_service''"] e by simp
qed

text \<open>
  C5. \<open>resourceIbmSmArbitrarySecretMapToArbitrarySecretPrototype\<close> either fails on
  an \<open>expiration_date\<close> that is set and does not parse, or returns a prototype whose
  secret type is \<open>arbitrary\<close> and in which each of the eight fields is present exactly
  when \<open>GetOk\<close> reports the attribute as set, with the attribute's value (the parsed
  date for \<open>expiration_date\<close>, the labels converted one by one, which leaves a string
  as it is).
\<close>

theorem C5_prototype_mapping:
  "(case resourceIbmSmArbitrarySecretMapToArbitrarySecretPrototype parse d of
      Inl err \<Rightarrow>
        GetOk (expiration_date d)
        \<and> (\<exists>msg. parse (expiration_date d) = Inl msg
              \<and> err = ErrorsNew (''Failed to get '' @ DQ @ ''expiration_date'' @ DQ @ ''. Error: '' @ msg))
    | Inr model \<Rightarrow>
        proto_SecretType model = Some ''arbitrary''
        \<and> proto_Name model = (if GetOk (name d) then Some (name d) else None)
        \<and> proto_Payload model = (if GetOk (payload d) then Some (payload d) else None)
        \<and> proto_CustomMetadata model
            = (if GetOk (custom_metadata d) then Some (custom_metadata d) else None)
        \<and> proto_Description model
            = (if GetOk (description d) then Some (description d) else None)
        \<and> (if GetOk (expiration_date d)
            then \<exists>t. parse (expiration_date d) = Inr t \<and> proto_ExpirationDate model = Some t
            else proto_ExpirationDate model = None)
        \<and> proto_Labels model = (if GetOk (labels d) then Some (map Sprint (labels d)) else None)
        \<and> (\<forall>l \<in> set (labels d). Sprint l = l)
        \<and> proto_SecretGroupID model
            = (if GetOk (secret_group_id d) then Some (secret_group_id d) else None)
        \<and> proto_VersionCustomMetadata model
            = (if GetOk (version_custom_metadata d) then Some (version_custom_metadata d)
               else None))"
proof (cases "GetOk (expiration_date d)")
  case False
  then show ?thesis
    by (simp add: resourceIbmSmArbitrarySecretMapToArbitrarySecretPrototype_def Let_def
        prototype_head_def prototype_tail_def Sprint_def split del: if_split)
next
  case True
  then show ?thesis
    by (cases "parse (expiration_date d)")
       (simp_all add: resourceIbmSmArbitrarySecretMapToArbitrarySecretPrototype_def Let_def
          prototype_head_def prototype_tail_def Sprint_def split del: if_split)
qed

theorem C5_prototype_mapping_witness:
  "\<exists>model. resourceIbmSmArbitrarySecretMapToArbitrarySecretPrototype (time_Parse env0) d0 = Inr model
      \<and> proto_SecretType model = Some ''arbitrary''
      \<and> proto_Name model = Some ''my-secret''
      \<and> proto_Payload model = Some ''s3cr3t''
      \<and> proto_Description model = None
      \<and> proto_ExpirationDate model = Some (DateTime 1893456000)
      \<and> proto_Labels model = Some [''dev'']"
proof -
  obtain model where m: "resourceIbmSmArbitrarySecretMapToArbitrarySecretPrototype (time_Parse env0) d0 = Inr model"
    by (simp add: resourceIbmSmArbitrarySecretMapToArbitrarySecretPrototype_def env0_def d0_def GetOk_def)
  show ?thesis
    using C5_prototype_mapping[where parse="time_Parse env0" and d=d0] m
    by (simp add: d0_def env0_def GetOk_def Sprint_def)
qed

text \<open>
  C6, as amended. In each of the four lifecycle functions, whenever
  \<open>CreateSecretWithContext\<close>, \<open>GetSecretWithContext\<close>,
  \<open>UpdateSecretMetadataWithContext\<close> or \<open>DeleteSecretWithContext\<close> has failed, other
  than a \<open>GetSecretWithContext\<close> answered with 404, the operation returns one error
  diagnostic: the name of the call, \<open>failed\<close>, the underlying error and the response.
\<close>

theorem C6_failed_calls_are_wrapped:
  "wraps_failed_calls (resourceIbmSmArbitrarySecretCreate env d)
   \<and> wraps_failed_calls (resourceIbmSmArbitrarySecretRead env d)
   \<and> wraps_failed_calls (resourceIbmSmArbitrarySecretUpdate env d)
   \<and> wraps_failed_calls (resourceIbmSmArbitrarySecretDelete env d)"
  using Create_wraps_and_returns[of env d] Read_wraps[of env d]
    Update_wraps_and_returns[of env d] Delete_wraps_and_returns[of env d] by simp

theorem C6_failed_calls_are_wrapped_witness:
  "fst (resourceIbmSmArbitrarySecretDelete
          (env0\<lparr>DeleteSecretWithContext :=
             \<lambda>i. (Some \<lparr>StatusCode = 503\<rparr>, Some (ClientError ''Service Unavailable'' (Some 503)))\<rparr>)
          d0)
     = Returned [Errorf (''DeleteSecretWithContext failed %s'' @ LF @ ''%s'')
                   [AErr (Some (ClientError ''Service Unavailable'' (Some 503))),
                    AResp (Some \<lparr>StatusCode = 503\<rparr>)]]"
proof -
  let ?env = "env0\<lparr>DeleteSecretWithContext :=
             \<lambda>i. (Some \<lparr>StatusCode = 503\<rparr>, Some (ClientError ''Service Unavailable'' (Some 503)))\<rparr>"
  let ?x = "(DeleteSecretWithContextCall ''abc'', Some \<lparr>StatusCode = 503\<rparr>,
             Some (ClientError ''Service Unavailable'' (Some 503)))"
  have tr: "snd (snd (resourceIbmSmArbitrarySecretDelete ?env d0)) = [?x]"
    by (simp add: resourceIbmSmArbitrarySecretDelete_def env0_def d0_def)
  have "wraps_failed_calls (resourceIbmSmArbitrarySecretDelete ?env d0)"
    using C6_failed_calls_are_wrapped[of ?env d0] by simp
  then show ?thesis
    unfolding wraps_failed_calls_def tr by simp
qed

text \<open>
  The claim as stated fails in the read function: \<open>GetSecretWithContext\<close> fails with
  a 404 response and the read returns no diagnostic at all.
\<close>

theorem C6_read_404_counterexample:
  "snd (snd (resourceIbmSmArbitrarySecretRead (env0\<lparr>GetSecretWithContext := \<lambda>i. not_found\<rparr>) d0))
     = [(GetSecretWithContextCall ''abc'', Some \<lparr>StatusCode = 404\<rparr>,
         Some (ClientError ''Not Found'' (Some 404)))]
   \<and> fst (resourceIbmSmArbitrarySecretRead (env0\<lparr>GetSecretWithContext := \<lambda>i. not_found\<rparr>) d0)
     = Returned []"
proof -
  let ?env = "env0\<lparr>GetSecretWithContext := \<lambda>i. not_found\<rparr>"
  have s: "SecretsManagerV2 ?env = None" by (simp add: env0_def)
  have i: "Split (Id_d d0) (CHR ''/'') = [''us-south'', ''inst-1'', ''abc'']" by (simp add: d0_def)
  have l: "length (Split (Id_d d0) (CHR ''/'')) = 3" by (simp add: i)
  have g: "GetSecretWithContext ?env (Split (Id_d d0) (CHR ''/'') ! 2)
      = (NilIntf, Some \<lparr>StatusCode = 404\<rparr>, Some (ClientError ''Not Found'' (Some 404)))"
    by (simp add: not_found_def)
  show ?thesis
    using Read_one_call[OF s l g] by (simp add: i is_404_def)
qed

text \<open>
  C7, as amended. In each of the four lifecycle functions a failed call outside the
  creation poll is the last call of the operation, and the operation returns: with an
  error diagnostic, or with no diagnostic when the failed call is a
  \<open>GetSecretWithContext\<close> answered with 404.
\<close>

theorem C7_operations_return_at_first_failure:
  "returns_at_first_failure (resourceIbmSmArbitrarySecretCreate env d)
   \<and> returns_at_first_failure (resourceIbmSmArbitrarySecretRead env d)
   \<and> returns_at_first_failure (resourceIbmSmArbitrarySecretUpdate env d)
   \<and> returns_at_first_failure (resourceIbmSmArbitrarySecretDelete env d)"
  using Create_wraps_and_returns[of env d] Read_first_failure[of env d]
    Update_wraps_and_returns[of env d] Delete_wraps_and_returns[of env d] by simp

theorem C7_operations_return_at_first_failure_witness:
  "snd (snd (resourceIbmSmArbitrarySecretUpdate
               (env0\<lparr>UpdateSecretMetadataWithContext := \<lambda>i p. unavailable\<rparr>) d0))
     = [] @ (UpdateSecretMetadataWithContextCall ''abc'' (patchVals d0), Some \<lparr>StatusCode = 503\<rparr>,
             Some (ClientError ''Service Unavailable'' (Some 503))) # []
   \<and> (\<exists>diags. fst (resourceIbmSmArbitrarySecretUpdate
                      (env0\<lparr>UpdateSecretMetadataWithContext := \<lambda>i p. unavailable\<rparr>) d0)
                 = Returned diags \<and> diags \<noteq> [])"
proof -
  let ?env = "env0\<lparr>UpdateSecretMetadataWithContext := \<lambda>i p. unavailable\<rparr>"
  let ?x = "(UpdateSecretMetadataWithContextCall ''abc'' (patchVals d0), Some \<lparr>StatusCode = 503\<rparr>,
             Some (ClientError ''Service Unavailable'' (Some 503)))"
  have tr: "snd (snd (resourceIbmSmArbitrarySecretUpdate ?env d0)) = [] @ ?x # []"
  proof -
    have h: "hasChange d0" by (simp add: hasChange_def d0_def)
    have s: "Split (Id_d d0) (CHR ''/'') = [''us-south'', ''inst-1'', ''abc'']"
      by (simp add: d0_def)
    have e: "SecretsManagerV2 ?env = None" by (simp add: env0_def)
    have l: "3 \<le> length (Split (Id_d d0) (CHR ''/''))" by (simp add: s)
    show ?thesis
      using Update_unfold[OF e l] by (simp add: h s unavailable_def)
  qed
  have "returns_at_first_failure (resourceIbmSmArbitrarySecretUpdate ?env d0)"
    using C7_operations_return_at_first_failure[of ?env d0] by simp
  moreover have "snd (snd (resourceIbmSmArbitrarySecretUpdate ?env d0)) = [] @ ?x # []
      \<and> snd (snd ?x) \<noteq> None \<and> \<not> is_poll_call (fst ?x)"
    using tr by simp
  ultimately have "\<exists>diags. fst (resourceIbmSmArbitrarySecretUpdate ?env d0) = Returned diags
               \<and> (diags = [] \<longleftrightarrow> gone_404 ?x)"
    unfolding returns_at_first_failure_def by blast
  then show ?thesis using tr by simp
qed

text \<open>
  The claim as stated fails in an update without changes: its only call,
  \<open>GetSecretWithContext\<close>, fails with a 404 response, and the function returns no
  diagnostic on this first error.
\<close>

theorem C7_update_read_404_counterexample:
  "snd (snd (resourceIbmSmArbitrarySecretUpdate (env0\<lparr>GetSecretWithContext := \<lambda>i. not_found\<rparr>)
               (d0\<lparr>HasChange := \<lambda>k. False\<rparr>)))
     = [(GetSecretWithContextCall ''abc'', Some \<lparr>StatusCode = 404\<rparr>,
         Some (ClientError ''Not Found'' (Some 404)))]
   \<and> fst (resourceIbmSmArbitrarySecretUpdate (env0\<lparr>GetSecretWithContext := \<lambda>i. not_found\<rparr>)
            (d0\<lparr>HasChange := \<lambda>k. False\<rparr>))
     = Returned []"
proof -
  let ?env = "env0\<lparr>GetSecretWithContext := \<lambda>i. not_found\<rparr>"
  let ?d = "d0\<lparr>HasChange := \<lambda>k. False\<rparr>"
  have s: "SecretsManagerV2 ?env = None" by (simp add: env0_def)
  have i: "Split (Id_d d0) (CHR ''/'') = [''us-south'', ''inst-1'', ''abc'']" by (simp add: d0_def)
  have l: "length (Split (Id_d ?d) (CHR ''/'')) = 3" by (simp add: i)
  have g: "GetSecretWithContext ?env (Split (Id_d ?d) (CHR ''/'') ! 2)
      = (NilIntf, Some \<lparr>StatusCode = 404\<rparr>, Some (ClientError ''Not Found'' (Some 404)))"
    by (simp add: not_found_def)
  have h: "\<not> hasChange ?d" by (simp add: hasChange_def)
  have u: "resourceIbmSmArbitrarySecretUpdate ?env ?d = resourceIbmSmArbitrarySecretRead ?env ?d"
    unfolding resourceIbmSmArbitrarySecretUpdate_def Let_def using s l h by simp
  show ?thesis
    unfolding u using Read_one_call[OF s l g] by (simp add: i is_404_def)
qed

text \<open>
  C8. When \<open>GetSecret\<close> fails, the REST client hands back the nil interface as its
  result together with the error. The refresh function type-asserts the result before it
  looks at the error, so on such an answer it panics instead of returning the error: here
  for a 404 request failure.
\<close>

theorem C8_refresh_panics_on_failed_GetSecret:
  "Refresh (NilIntf, Some \<lparr>StatusCode = 404\<rparr>, Some (ClientError ''Not Found'' (Some 404)))
     = RefreshPanic"
  by (simp add: Refresh_def)

text \<open>
  C9. When \<open>expiration_date\<close> is set and does not parse as RFC 3339,
  \<open>resourceIbmSmArbitrarySecretCreate\<close> returns one error diagnostic, has issued no
  REST call and leaves the resource data, the identifier included, as it was.
\<close>

theorem C9_bad_expiration_date_stops_create:
  assumes "GetOk (expiration_date d)" and "time_Parse env (expiration_date d) = Inl msg"
  shows "resourceIbmSmArbitrarySecretCreate env d =
     (Returned [case SecretsManagerV2 env of
                  Some err \<Rightarrow> err
                | None \<Rightarrow> ErrorsNew (''Failed to get '' @ DQ @ ''expiration_date'' @ DQ @ ''. Error: '' @ msg)],
      d, [])"
  using assms
  by (simp add: resourceIbmSmArbitrarySecretCreate_def
      resourceIbmSmArbitrarySecretMapToArbitrarySecretPrototype_def Let_def split: option.splits)

theorem C9_bad_expiration_date_stops_create_witness:
  "GetOk (expiration_date (d0\<lparr>expiration_date := ''tomorrow''\<rparr>))
   \<and> resourceIbmSmArbitrarySecretCreate env0 (d0\<lparr>expiration_date := ''tomorrow''\<rparr>) =
       (Returned [ErrorsNew (''Failed to get '' @ DQ @ ''expiration_date'' @ DQ @ ''. Error: cannot parse'')],
        d0\<lparr>expiration_date := ''tomorrow''\<rparr>, [])"
proof -
  let ?d = "d0\<lparr>expiration_date := ''tomorrow''\<rparr>"
  have h1: "GetOk (expiration_date ?d)" by (simp add: GetOk_def)
  have h2: "time_Parse env0 (expiration_date ?d) = Inl ''cannot parse''" by (simp add: env0_def)
  show ?thesis using h1 C9_bad_expiration_date_stops_create[OF h1 h2] by (simp add: env0_def)
qed

text \<open>
  C10. Once \<open>resourceIbmSmArbitrarySecretUpdate\<close> has its client and an identifier of
  three parts, it issues \<open>UpdateSecretMetadataWithContext\<close> exactly when one of
  \<open>name\<close>, \<open>description\<close>, \<open>labels\<close> and \<open>custom_metadata\<close> has changed; the
  request is then the first call, it is the only update call, and its patch holds exactly
  the changed fields among the four. No call of the operation is of the one request type
  that has a payload field, and the schema marks \<open>payload\<close> as \<open>ForceNew\<close>.
\<close>

theorem C10_update_sends_changed_metadata_only:
  assumes "SecretsManagerV2 env = None" and "3 \<le> length (Split (Id_d d) (CHR ''/''))"
  shows "(let tr = snd (snd (resourceIbmSmArbitrarySecretUpdate env d));
              changed = (HasChange d ''name'' \<or> HasChange d ''description''
                         \<or> HasChange d ''labels'' \<or> HasChange d ''custom_metadata'');
              patch = \<lparr>patch_Name = (if HasChange d ''name'' then Some (name d) else None),
                       patch_Description =
                         (if HasChange d ''description'' then Some (description d) else None),
                       patch_Labels =
                         (if HasChange d ''labels'' then Some (labels d) else None),
                       patch_CustomMetadata =
                         (if HasChange d ''custom_metadata'' then Some (custom_metadata d)
                          else None)\<rparr>
          in ((\<exists>x \<in> set tr. is_update_call (fst x)) \<longleftrightarrow> changed)
           \<and> (changed \<longrightarrow>
                 (\<exists>response err rest.
                    tr = (UpdateSecretMetadataWithContextCall (Split (Id_d d) (CHR ''/'') ! 2) patch,
                          response, err) # rest
                    \<and> (\<forall>x \<in> set rest. \<not> is_update_call (fst x))))
           \<and> (\<forall>x \<in> set tr. \<not> carries_payload (fst x)))
         \<and> map_option (\<lambda>s. ForceNew (flags s)) (map_of ResourceIbmSmArbitrarySecret ''payload'')
             = Some True"
proof -
  let ?tr = "snd (snd (resourceIbmSmArbitrarySecretUpdate env d))"
  let ?rd = "snd (snd (resourceIbmSmArbitrarySecretRead env d))"
  let ?sid = "Split (Id_d d) (CHR ''/'') ! 2"
  have pv: "patchVals d = \<lparr>patch_Name = (if HasChange d ''name'' then Some (name d) else None),
                       patch_Description =
                         (if HasChange d ''description'' then Some (description d) else None),
                       patch_Labels =
                         (if HasChange d ''labels'' then Some (labels d) else None),
                       patch_CustomMetadata =
                         (if HasChange d ''custom_metadata'' then Some (custom_metadata d)
                          else None)\<rparr>"
    by (simp add: patchVals_def map_Sprint)
  have hc: "hasChange d = (HasChange d ''name'' \<or> HasChange d ''description''
                         \<or> HasChange d ''labels'' \<or> HasChange d ''custom_metadata'')"
    by (simp add: hasChange_def)
  note rd = Read_trace_no_update[of env d]
  have schema: "map_option (\<lambda>s. ForceNew (flags s)) (map_of ResourceIbmSmArbitrarySecret ''payload'')
             = Some True"
    by (simp add: ResourceIbmSmArbitrarySecret_def no_flags_def)
  show ?thesis
  proof (cases "hasChange d")
    case False
    then have "?tr = ?rd" using Update_unfold[OF assms] by simp
    then show ?thesis using rd False hc schema by (simp add: Let_def)
  next
    case True
    obtain res response err where u: "UpdateSecretMetadataWithContext env ?sid (patchVals d) = (res, response, err)"
      by (cases "UpdateSecretMetadataWithContext env ?sid (patchVals d)") auto
    let ?rest = "case err of Some e \<Rightarrow> [] | None \<Rightarrow> ?rd"
    have tr: "?tr = (UpdateSecretMetadataWithContextCall ?sid (patchVals d), response, err) # ?rest"
      using Update_unfold[OF assms] True u by simp
    have rest: "\<forall>x \<in> set ?rest. \<not> is_update_call (fst x) \<and> \<not> carries_payload (fst x)"
      using rd by (cases err) auto
    have a: "\<exists>x \<in> set ?tr. is_update_call (fst x)" unfolding tr by simp
    have b: "\<exists>response err rest.
                    ?tr = (UpdateSecretMetadataWithContextCall ?sid (patchVals d), response, err) # rest
                    \<and> (\<forall>x \<in> set rest. \<not> is_update_call (fst x))"
      using tr rest by blast
    have c: "\<forall>x \<in> set ?tr. \<not> carries_payload (fst x)"
      unfolding tr using rest by simp
    show ?thesis
      unfolding Let_def using a b c True hc schema pv by simp
  qed
qed

theorem C10_update_sends_changed_metadata_only_witness:
  "(\<exists>response err rest.
      snd (snd (resourceIbmSmArbitrarySecretUpdate env0 d0))
        = (UpdateSecretMetadataWithContextCall ''abc''
             \<lparr>patch_Name = Some ''my-secret'', patch_Description = None,
              patch_Labels = Some [''dev''], patch_CustomMetadata = None\<rparr>, response, err) # rest
      \<and> (\<forall>x \<in> set rest. \<not> is_update_call (fst x)))
   \<and> \<not> (\<exists>x \<in> set (snd (snd (resourceIbmSmArbitrarySecretUpdate env0
                                    (d0\<lparr>HasChange := \<lambda>k. False\<rparr>)))).
            is_update_call (fst x))"
proof -
  let ?d1 = "d0\<lparr>HasChange := \<lambda>k. False\<rparr>"
  have s: "SecretsManagerV2 env0 = None" by (simp add: env0_def)
  have l0: "3 \<le> length (Split (Id_d d0) (CHR ''/''))" by (simp add: d0_def)
  have l1: "3 \<le> length (Split (Id_d ?d1) (CHR ''/''))" by (simp add: d0_def)
  have a: "\<exists>response err rest.
      snd (snd (resourceIbmSmArbitrarySecretUpdate env0 d0))
        = (UpdateSecretMetadataWithContextCall ''abc''
             \<lparr>patch_Name = Some ''my-secret'', patch_Description = None,
              patch_Labels = Some [''dev''], patch_CustomMetadata = None\<rparr>, response, err) # rest
      \<and> (\<forall>x \<in> set rest. \<not> is_update_call (fst x))"
    using C10_update_sends_changed_metadata_only[OF s l0] by (simp add: Let_def d0_def)
  have b: "\<not> (\<exists>x \<in> set (snd (snd (resourceIbmSmArbitrarySecretUpdate env0 ?d1))).
              is_update_call (fst x))"
    using C10_update_sends_changed_metadata_only[OF s l1] by (simp add: Let_def)
  show ?thesis using a b by simp
qed

end
